theory Spec2Isabelle
  imports Complex_Main "HOL-Library.AList"
begin

section \<open>Data model (model/core/tutorial\_module.py, model/core/student\_module.py)\<close>

text \<open>
  Values of the open-ended parameter bag. Python values are dynamically typed; the
  constructors below are the built-in types the sources put into parameters and
  contexts, and \<open>PObject m d\<close> is an instance of a class defined in module \<open>m\<close>
  that derives from no built-in type, with attribute dictionary \<open>d\<close> (for example an
  \<open>AssistanceObject\<close>). \<open>PInt\<close> is a Python \<open>int\<close>; \<open>PNum\<close> is a \<open>float\<close>, given
  by its exact value.
\<close>

datatype pyvalue =
    PNone
  | PBool bool
  | PInt int
  | PNum rat
  | PStr string
  | PList "pyvalue list"
  | PDict "(pyvalue \<times> pyvalue) list"
  | PObject string "(pyvalue \<times> pyvalue) list"

text \<open>\<open>value.__class__.__module__\<close> under Python 3 (the sources use \<open>match\<close>
  statements, so Python 3.10 or later): every built-in type lives in \<open>builtins\<close>.\<close>

fun class_module :: "pyvalue \<Rightarrow> string" where
  "class_module (PObject m d) = m"
| "class_module v = ''builtins''"

text \<open>
  Modelled from the spec: the exception classes of \<open>error/tutorial_module.py\<close> and
  \<open>error/student_module.py\<close>, which are not among the sources. The spec lists them as
  separate kinds of failure, so none of them is taken to derive from another. The
  remaining constructors are the built-in exceptions and those of the libraries
  (\<open>InvalidDocument\<close> of \<open>bson\<close>, \<open>ValidationError\<close> of \<open>pydantic\<close>) that the
  modelled code can raise.
\<close>

datatype error =
    AssistanceParameterException
  | AssistanceOperationException
  | AssistanceOperationCanNotBeScheduledException
  | AssistanceNotExistsException
  | CompletedAssistanceModifyException
  | StudentModelNotExistsError
  | AttributeError
  | IndexError
  | KeyError
  | TypeError
  | RecursionError
  | OverflowError
  | InvalidDocument
  | ValidationError

text \<open>
  What \<open>insert_one\<close> raises when it encodes a value as BSON, if anything: an \<open>int\<close>
  must fit into 8 bytes, the keys of a dictionary must be strings without a NUL
  character, and an instance of a class of the program cannot be encoded. The elements
  are encoded in order, so the first offending one decides.
\<close>

fun first_error :: "error option list \<Rightarrow> error option" where
  "first_error [] = None"
| "first_error (None # rest) = first_error rest"
| "first_error (Some e # rest) = Some e"

definition bson_key_error :: "string \<Rightarrow> error option" where
  "bson_key_error k = (if CHR 0x00 \<in> set k then Some InvalidDocument else None)"

fun bson_error :: "pyvalue \<Rightarrow> error option" where
  "bson_error PNone = None"
| "bson_error (PBool b) = None"
| "bson_error (PInt i) = (if - (2 ^ 63) \<le> i \<and> i < 2 ^ 63 then None else Some OverflowError)"
| "bson_error (PNum x) = None"
| "bson_error (PStr x) = None"
| "bson_error (PList vs) = first_error (map bson_error vs)"
| "bson_error (PDict kvs) =
     first_error (map (\<lambda>kv. case fst kv of
                               PStr k \<Rightarrow> (case bson_key_error k of
                                            Some e \<Rightarrow> Some e
                                          | None \<Rightarrow> bson_error (snd kv))
                             | _ \<Rightarrow> Some InvalidDocument) kvs)"
| "bson_error (PObject m d) = Some InvalidDocument"

text \<open>The same for a dictionary whose keys are strings, such as the parameter dictionary
  of a context.\<close>

definition bson_document_error :: "(string \<times> pyvalue) list \<Rightarrow> error option" where
  "bson_document_error d =
     first_error (map (\<lambda>kv. case bson_key_error (fst kv) of
                               Some e \<Rightarrow> Some e
                             | None \<Rightarrow> bson_error (snd kv)) d)"

text \<open>
  Points in time are \<open>datetime\<close> values in UTC, given as microseconds since
  1970-01-01T00:00:00, the resolution of \<open>datetime\<close>; a \<open>timedelta\<close> is a number of
  microseconds.
\<close>

type_synonym datetime = int

datatype AssistanceStateStatus = INITIATED | IN_PROGRESS | ABORTED | COMPLETED

datatype AssistanceObjectType = ASSISTANCE_OBJECT | ASSISTANCE_RESPONSE_OBJECT

datatype SubsequentAssistanceOperationType = TRIGGERED_OPERATION | SCHEDULED_OPERATION

text \<open>The string value of the enum member, as \<open>to_dict\<close> writes it.\<close>

fun status_value :: "AssistanceStateStatus \<Rightarrow> string" where
  "status_value INITIATED = ''initiated''"
| "status_value IN_PROGRESS = ''in_progress''"
| "status_value ABORTED = ''aborted''"
| "status_value COMPLETED = ''completed''"

record AssistanceParameter =
  key :: string
  val :: pyvalue

record AssistanceState =
  status :: "AssistanceStateStatus option"
  phase :: "nat option"
  step :: "string option"

text \<open>
  An \<open>AssistanceObject\<close>. \<open>ao_oid\<close> is the document's \<open>_id\<close> in the object
  collection; a reference \<open>{"_id": x}\<close> stored inside an assistance document is the
  object with only \<open>ao_oid\<close> set, which is what \<open>AssistanceObject({"_id": x})\<close>
  builds.
\<close>

record AssistanceObject =
  ao_oid :: "nat option"
  ao_a_id :: "string option"
  assistance_type :: "string option"
  ao_id :: "string option"
  ao_user_id :: "string option"
  ao_timestamp :: "datetime option"
  ao_parameters :: "AssistanceParameter list"
  ao_type :: "AssistanceObjectType option"

record Assistance =
  oid :: "nat option"
  a_id :: "string option"
  user_id :: "string option"
  type_key :: "string option"
  timestamp :: "datetime option"
  assistance_state :: "AssistanceState option"
  parameters :: "AssistanceParameter list"
  assistance_objects :: "AssistanceObject list"
  next_operation_keys :: "string list"

text \<open>\<open>AssistanceContext\<close>: the parameter dictionary and the class attribute
  \<open>context_can_be_persisted\<close> (initially \<open>True\<close>).\<close>

record AssistanceContext =
  parameter_dict :: "(string \<times> pyvalue) list"
  context_can_be_persisted :: bool

definition new_context :: "(string \<times> pyvalue) list \<Rightarrow> AssistanceContext" where
  "new_context d = \<lparr>parameter_dict = d, context_can_be_persisted = True\<rparr>"

definition get_parameter :: "AssistanceContext \<Rightarrow> string \<Rightarrow> error + pyvalue" where
  "get_parameter ctx parameter_key =
     (case map_of (parameter_dict ctx) parameter_key of
        None \<Rightarrow> Inl AssistanceParameterException
      | Some v \<Rightarrow> Inr v)"

definition add_parameter :: "AssistanceContext \<Rightarrow> string \<Rightarrow> pyvalue \<Rightarrow> error + AssistanceContext" where
  "add_parameter ctx parameter_key parameter_value =
     (if parameter_key \<in> fst ` set (parameter_dict ctx) then Inl AssistanceParameterException
      else Inr \<lparr>parameter_dict = AList.update parameter_key parameter_value (parameter_dict ctx),
                context_can_be_persisted =
                  (if class_module parameter_value = ''__builtin__'' then False
                   else context_can_be_persisted ctx)\<rparr>)"

section \<open>Parameter helpers (assistance/\_\_init\_\_.py)\<close>

definition get_first_assistance_parameter_by_key ::
  "AssistanceParameter list \<Rightarrow> string \<Rightarrow> error + AssistanceParameter" where
  "get_first_assistance_parameter_by_key ps parameter_key =
     (case find (\<lambda>p. key p = parameter_key) ps of
        Some p \<Rightarrow> Inr p
      | None \<Rightarrow> Inl AssistanceParameterException)"

text \<open>The second argument defaults to \<open>None\<close> in the source.\<close>

definition replace_or_add_assistance_parameters_by_key ::
  "AssistanceParameter \<Rightarrow> AssistanceParameter list option \<Rightarrow> AssistanceParameter list" where
  "replace_or_add_assistance_parameters_by_key replacement ps =
     (case ps of
        None \<Rightarrow> []
      | Some l \<Rightarrow> filter (\<lambda>parameter. key parameter \<noteq> key replacement) l @ [replacement])"

section \<open>Persistent store and environment (service/db, service/environment.py)\<close>

text \<open>The scheduled invocation document (\<open>model.core.tutorial_module.AssistanceOperation\<close>,
  imported by the engine as \<open>AssistanceOperationModel\<close>). The context is stored as its
  parameter dictionary.\<close>

record AssistanceOperationModel =
  op_oid :: "nat option"
  assistance_type_key :: string
  assistance_operation_key :: string
  op_a_id :: "string option"
  ctx :: "(string \<times> pyvalue) list"
  time_of_invocation :: "datetime option"

text \<open>An xAPI statement as far as the engine reads it: \<open>verb_id = None\<close> stands for a
  statement without verb, \<open>object_id = None\<close> for one without object,
  \<open>actor_account_name = None\<close> for one without user.\<close>

record Statement =
  st_id :: string
  verb_id :: "string option"
  object_id :: "string option"
  actor_account_name :: "string option"

text \<open>An experience document: its \<open>_id\<close>, the statement it records and the user. The
  fields that only describe the learning content (object, verb, learning content object,
  result, timestamp) are left out; the modelled code does not read them.\<close>

record Experience =
  ex_oid :: nat
  ex_statement_id :: string
  ex_user_id :: string

text \<open>A student model document; \<open>experiences\<close> holds the \<open>_id\<close> references that
  \<open>__load_experiences\<close> resolves against the experience collection. Of the other
  fields only \<open>online\<close> is kept.\<close>

record StudentModel =
  sm_user_id :: string
  online :: bool
  experiences :: "nat list"

text \<open>The value of a setting: a truth value or a number (an \<open>int\<close> or a \<open>float\<close>, given
  by its exact value).\<close>

datatype setting_value = SBool bool | SNum rat

text \<open>Python truthiness and numeric value of a setting.\<close>

fun truthy :: "setting_value \<Rightarrow> bool" where
  "truthy (SBool b) = b"
| "truthy (SNum r) = (r \<noteq> 0)"

fun numeric :: "setting_value \<Rightarrow> rat" where
  "numeric (SBool b) = (if b then 1 else 0)"
| "numeric (SNum r) = r"

text \<open>
  Everything outside the interpreter that the engine reads or writes: the MongoDB
  collections (documents in insertion order), the \<open>DEBUG\<close> and
  \<open>DISABLED_ASSISTANCE_TYPES\<close> environment variables, the clock read by
  \<open>current_datetime\<close> (it does not advance inside one call), the supplies of
  \<open>ObjectId\<close>s and of \<open>uuid4\<close> strings, the translation function \<open>t\<close>, the
  messages handed to the STOMP server (statements with their destination, and bundles of
  assistance), and the log of the sweep.

  The schema classes \<open>model.api.statement.Statement\<close> and
  \<open>model.api.assistance.Assistance\<close> are not among the sources. What their
  \<open>model_validate\<close> accepts is a parameter: \<open>statement_schema_accepts\<close> and
  \<open>assistance_schema_accepts\<close>; a rejected value raises \<open>ValidationError\<close>.
\<close>

record world =
  assistance_collection :: "Assistance list"
  assistance_objects_collection :: "AssistanceObject list"
  assistance_operations_collection :: "AssistanceOperationModel list"
  settings_collection :: "(string \<times> setting_value) list"
  statements_collection :: "Statement list"
  student_models_collection :: "StudentModel list"
  experiences_collection :: "Experience list"
  debug_enabled_by_env_var :: bool
  DISABLED_ASSISTANCE_TYPE_KEYS :: "string list"
  clock :: datetime
  next_object_id :: nat
  uuid_source :: "nat \<Rightarrow> string"
  uuid_count :: nat
  t :: "string \<Rightarrow> string \<Rightarrow> string"
  statement_schema_accepts :: "Statement \<Rightarrow> bool"
  assistance_schema_accepts :: "Assistance \<Rightarrow> bool"
  sent_statements :: "(string \<times> Statement) list"
  sent_assistance :: "Assistance list list"
  error_log :: "error list"

definition uuid4 :: "world \<Rightarrow> string \<times> world" where
  "uuid4 w = (uuid_source w (uuid_count w), w\<lparr>uuid_count := Suc (uuid_count w)\<rparr>)"

definition current_datetime :: "world \<Rightarrow> datetime" where
  "current_datetime w = clock w"

subsection \<open>Settings (service/administration.py, service/db/setting.py)\<close>

definition SETTING_KEY_DEBUG :: string where
  "SETTING_KEY_DEBUG = ''debug''"

definition SETTING_KEY_DEBUG_SCHEDULED_ASSISTANCE_TIME_FACTOR :: string where
  "SETTING_KEY_DEBUG_SCHEDULED_ASSISTANCE_TIME_FACTOR = ''debug_scheduled_assistance_time_factor''"

definition SETTING_KEY_SCHEDULED_ASSISTANCE_DISABLED :: string where
  "SETTING_KEY_SCHEDULED_ASSISTANCE_DISABLED = ''scheduled_assistance_disabled''"

definition read_setting_by_key :: "world \<Rightarrow> string \<Rightarrow> setting_value option" where
  "read_setting_by_key w setting_key = map_of (settings_collection w) setting_key"

definition debug :: "world \<Rightarrow> bool" where
  "debug w =
     (if debug_enabled_by_env_var w then True
      else (case read_setting_by_key w SETTING_KEY_DEBUG of
              Some v \<Rightarrow> truthy v
            | None \<Rightarrow> False))"

subsection \<open>MongoDB primitives\<close>

text \<open>\<open>replace_one\<close> and \<open>update_one\<close> change the first matching document and
  keep its position; \<open>delete_one\<close> removes the first matching document.\<close>

fun update_first :: "('a \<Rightarrow> bool) \<Rightarrow> ('a \<Rightarrow> 'a) \<Rightarrow> 'a list \<Rightarrow> 'a list" where
  "update_first P f [] = []"
| "update_first P f (x # xs) = (if P x then f x # xs else x # update_first P f xs)"


text \<open>The filter \<open>{"a_id": v}\<close> on an assistance document: a string matches the stored
  id, \<open>None\<close> matches a document without id.\<close>

fun matches_a_id :: "pyvalue \<Rightarrow> string option \<Rightarrow> bool" where
  "matches_a_id (PStr s) x = (x = Some s)"
| "matches_a_id PNone x = (x = None)"
| "matches_a_id v x = False"

fun py_of_id :: "string option \<Rightarrow> pyvalue" where
  "py_of_id None = PNone"
| "py_of_id (Some s) = PStr s"

subsection \<open>Assistance objects (service/db/assistance\_object.py)\<close>

text \<open>The loop of \<open>create_assistance_objects\<close>: each object gets the instance id, a
  fresh \<open>ao_id\<close> and the current time; \<open>insert_many\<close> then gives each document its
  \<open>_id\<close>. \<open>insert_many\<close> raises \<open>TypeError\<close> when the list of documents is
  empty.\<close>

fun create_assistance_objects_loop ::
  "AssistanceObject list \<Rightarrow> string option \<Rightarrow> world \<Rightarrow> AssistanceObject list \<times> world" where
  "create_assistance_objects_loop [] aid w = ([], w)"
| "create_assistance_objects_loop (assistance_object # rest) aid w =
     (let (u, w1) = uuid4 w;
          d = assistance_object\<lparr>ao_a_id := aid, ao_id := Some u,
                ao_timestamp := Some (current_datetime w1),
                ao_oid := Some (next_object_id w1)\<rparr>;
          w2 = w1\<lparr>next_object_id := Suc (next_object_id w1)\<rparr>;
          (ds, w3) = create_assistance_objects_loop rest aid w2
      in (d # ds, w3))"

definition create_assistance_objects ::
  "AssistanceObject list \<Rightarrow> string option \<Rightarrow> world
     \<Rightarrow> (error + AssistanceObject list) \<times> world" where
  "create_assistance_objects objs aid w =
     (let (ds, w1) = create_assistance_objects_loop objs aid w
      in if ds = [] then (Inl TypeError, w1)
         else (Inr ds,
               w1\<lparr>assistance_objects_collection := assistance_objects_collection w1 @ ds\<rparr>))"

definition object_ref :: "AssistanceObject \<Rightarrow> AssistanceObject" where
  "object_ref created_ao =
     \<lparr>ao_oid = ao_oid created_ao, ao_a_id = None, assistance_type = None, ao_id = None,
      ao_user_id = None, ao_timestamp = None, ao_parameters = [], ao_type = None\<rparr>"

subsection \<open>Assistance (service/db/assistance.py)\<close>

definition load_assistance_objects :: "world \<Rightarrow> Assistance \<Rightarrow> Assistance" where
  "load_assistance_objects w assistance =
     (if assistance_objects assistance = [] then assistance
      else assistance\<lparr>assistance_objects :=
             filter (\<lambda>ao. ao_oid ao \<in> set (map ao_oid (assistance_objects assistance)))
               (assistance_objects_collection w)\<rparr>)"

definition find_one_assistance :: "world \<Rightarrow> pyvalue \<Rightarrow> Assistance option" where
  "find_one_assistance w v = find (\<lambda>d. matches_a_id v (a_id d)) (assistance_collection w)"

definition read_assistance_by_a_id :: "world \<Rightarrow> pyvalue \<Rightarrow> Assistance option" where
  "read_assistance_by_a_id w v =
     (case find_one_assistance w v of
        None \<Rightarrow> None
      | Some find_one_result \<Rightarrow> Some (load_assistance_objects w find_one_result))"


definition create_assistance :: "Assistance \<Rightarrow> world \<Rightarrow> (error + Assistance) \<times> world" where
  "create_assistance assistance w =
     (let (u, w1) = uuid4 w;
          a1 = assistance\<lparr>a_id := Some u, timestamp := Some (current_datetime w1)\<rparr>
      in (case (if assistance_objects a1 = [] then (Inr [], w1)
                else (case create_assistance_objects (assistance_objects a1) (a_id a1) w1 of
                        (Inl e, w') \<Rightarrow> (Inl e, w')
                      | (Inr created, w') \<Rightarrow> (Inr (map object_ref created), w'))) of
            (Inl e, w2) \<Rightarrow> (Inl e, w2)
          | (Inr refs, w2) \<Rightarrow>
              (let assistance_dict =
                     a1\<lparr>assistance_objects := refs, oid := Some (next_object_id w2)\<rparr>;
                   w3 = w2\<lparr>assistance_collection := assistance_collection w2 @ [assistance_dict],
                           next_object_id := Suc (next_object_id w2)\<rparr>
               in (Inr (load_assistance_objects w3 assistance_dict), w3))))"

text \<open>\<open>existing_assistance.assistance_state.status\<close> raises \<open>AttributeError\<close> when
  the document has no state.\<close>

definition existing_status :: "Assistance \<Rightarrow> error + AssistanceStateStatus option" where
  "existing_status existing_assistance =
     (case assistance_state existing_assistance of
        None \<Rightarrow> Inl AttributeError
      | Some s \<Rightarrow> Inr (status s))"

text \<open>\<open>replace_one\<close> keeps the \<open>_id\<close> of the stored document.\<close>

definition replace_one_assistance :: "pyvalue \<Rightarrow> Assistance \<Rightarrow> world \<Rightarrow> world" where
  "replace_one_assistance v assistance_dict w =
     w\<lparr>assistance_collection :=
         update_first (\<lambda>d. matches_a_id v (a_id d)) (\<lambda>d. assistance_dict\<lparr>oid := oid d\<rparr>)
           (assistance_collection w)\<rparr>"

definition update_assistance_adding_assistance_objects ::
  "Assistance \<Rightarrow> world \<Rightarrow> (error + Assistance) \<times> world" where
  "update_assistance_adding_assistance_objects assistance w =
     (case find_one_assistance w (py_of_id (a_id assistance)) of
        None \<Rightarrow> (Inl AssistanceNotExistsException, w)
      | Some existing_assistance \<Rightarrow>
          (case existing_status existing_assistance of
             Inl e \<Rightarrow> (Inl e, w)
           | Inr st \<Rightarrow>
               if st = Some COMPLETED \<or> st = Some ABORTED
               then (Inl CompletedAssistanceModifyException, w)
               else
                 (case (if assistance_objects assistance \<noteq> []
                        then (case create_assistance_objects (assistance_objects assistance)
                                     (a_id existing_assistance) w of
                                (Inl e, w') \<Rightarrow> (Inl e, w')
                              | (Inr created, w') \<Rightarrow>
                                  (Inr (assistance_objects existing_assistance
                                        @ map object_ref created), w'))
                        else (Inr (assistance_objects existing_assistance), w)) of
                    (Inl e, w1) \<Rightarrow> (Inl e, w1)
                  | (Inr refs, w1) \<Rightarrow>
                      (let assistance_dict = assistance\<lparr>assistance_objects := refs\<rparr>;
                           w2 = replace_one_assistance (py_of_id (a_id assistance))
                                  assistance_dict w1
                       in (Inr (load_assistance_objects w2 assistance_dict), w2)))))"

definition update_assistance_by_a_id_adding_assistance_objects ::
  "pyvalue \<Rightarrow> AssistanceObject list \<Rightarrow> world \<Rightarrow> (error + Assistance) \<times> world" where
  "update_assistance_by_a_id_adding_assistance_objects aid objs w =
     (case find_one_assistance w aid of
        None \<Rightarrow> (Inl AssistanceNotExistsException, w)
      | Some existing_assistance \<Rightarrow>
          (case existing_status existing_assistance of
             Inl e \<Rightarrow> (Inl e, w)
           | Inr st \<Rightarrow>
               if st = Some COMPLETED \<or> st = Some ABORTED
               then (Inl CompletedAssistanceModifyException, w)
               else
                 (case create_assistance_objects objs (a_id existing_assistance) w of
                    (Inl e, w1) \<Rightarrow> (Inl e, w1)
                  | (Inr created, w1) \<Rightarrow>
                      (let assistance_dict = existing_assistance\<lparr>assistance_objects :=
                             assistance_objects existing_assistance @ map object_ref created\<rparr>;
                           w2 = replace_one_assistance (py_of_id (a_id existing_assistance))
                                  assistance_dict w1
                       in (Inr (load_assistance_objects w2 assistance_dict), w2)))))"

definition update_assistance_by_a_id_reset_next_operation_keys :: "pyvalue \<Rightarrow> world \<Rightarrow> world" where
  "update_assistance_by_a_id_reset_next_operation_keys v w =
     w\<lparr>assistance_collection :=
         update_first (\<lambda>d. matches_a_id v (a_id d)) (\<lambda>d. d\<lparr>next_operation_keys := []\<rparr>)
           (assistance_collection w)\<rparr>"

subsection \<open>Scheduled operations (service/db/assistance\_operation.py)\<close>

text \<open>Rounding to the nearest integer, a tie to the even one.\<close>

definition round_half_even :: "rat \<Rightarrow> int" where
  "round_half_even x =
     (if x - of_int \<lfloor>x\<rfloor> < 1 / 2 then \<lfloor>x\<rfloor>
      else if 1 / 2 < x - of_int \<lfloor>x\<rfloor> then \<lfloor>x\<rfloor> + 1
      else if even \<lfloor>x\<rfloor> then \<lfloor>x\<rfloor> else \<lfloor>x\<rfloor> + 1)"

text \<open>
  \<open>timedelta(seconds=x)\<close>: the number of seconds is rounded to whole microseconds, and
  a duration of more than 999999999 days either way raises \<open>OverflowError\<close>. For an
  \<open>int\<close> the result is exact. For a \<open>float\<close> the model rounds the exact value, and
  leaves out the rounding of the floating point operations involved.
\<close>

definition timedelta :: "rat \<Rightarrow> error + int" where
  "timedelta seconds =
     (let microseconds = round_half_even (seconds * 1000000)
      in if - 86399999913600000000 \<le> microseconds \<and> microseconds \<le> 86399999999999999999
         then Inr microseconds
         else Inl OverflowError)"

text \<open>\<open>datetime + timedelta\<close>: a result before year 1 or after year 9999 raises
  \<open>OverflowError\<close>.\<close>

definition datetime_plus :: "datetime \<Rightarrow> int \<Rightarrow> error + datetime" where
  "datetime_plus d delta =
     (if - 62135596800000000 \<le> d + delta \<and> d + delta \<le> 253402300799999999
      then Inr (d + delta)
      else Inl OverflowError)"

text \<open>A \<open>datetime\<close> as BSON holds it: whole milliseconds, the microseconds beyond them
  cut off.\<close>

definition bson_datetime :: "datetime \<Rightarrow> datetime" where
  "bson_datetime d = (d div 1000) * 1000"

text \<open>
  \<open>create_assistance_operation_for_scheduled_invocation\<close>. The time of invocation is
  computed first. \<open>AssistanceOperation.to_dict\<close> hands the attributes over as they are,
  the context as its parameter dictionary, so \<open>insert_one\<close> encodes the values of the
  context and the time of invocation as BSON; when a value cannot be encoded it raises
  and nothing is stored. The object returned is built from the dictionary that was
  passed to \<open>insert_one\<close>.
\<close>

definition create_assistance_operation_for_scheduled_invocation ::
  "AssistanceOperationModel \<Rightarrow> rat \<Rightarrow> world
     \<Rightarrow> (error + AssistanceOperationModel) \<times> world" where
  "create_assistance_operation_for_scheduled_invocation assistance_operation time_to_invocation_in_s w =
     (case timedelta time_to_invocation_in_s of
        Inl e \<Rightarrow> (Inl e, w)
      | Inr delta \<Rightarrow>
          (case datetime_plus (current_datetime w) delta of
             Inl e \<Rightarrow> (Inl e, w)
           | Inr invocation \<Rightarrow>
               (case bson_document_error (ctx assistance_operation) of
                  Some e \<Rightarrow> (Inl e, w)
                | None \<Rightarrow>
                    (let d = assistance_operation\<lparr>time_of_invocation := Some invocation,
                               op_oid := Some (next_object_id w)\<rparr>
                     in (Inr d,
                         w\<lparr>assistance_operations_collection :=
                             assistance_operations_collection w
                               @ [d\<lparr>time_of_invocation := Some (bson_datetime invocation)\<rparr>],
                           next_object_id := Suc (next_object_id w)\<rparr>)))))"


definition delete_assistance_operations_by_a_id :: "pyvalue \<Rightarrow> world \<Rightarrow> world" where
  "delete_assistance_operations_by_a_id v w =
     w\<lparr>assistance_operations_collection :=
         filter (\<lambda>d. \<not> matches_a_id v (op_a_id d)) (assistance_operations_collection w)\<rparr>"


section \<open>Statements, experiences and student models (service/statement.py, service/db)\<close>

definition LOGGED_IN :: string where
  "LOGGED_IN = ''https://brindlewaye.com/xAPITerms/verbs/loggedin/''"

definition LOGGED_OUT :: string where
  "LOGGED_OUT = ''https://brindlewaye.com/xAPITerms/verbs/loggedout/''"

definition ASSISTED :: string where
  "ASSISTED = ''https://brindlewaye.com/xAPITerms/verbs/assisted/''"



definition read_statement_by_id :: "world \<Rightarrow> pyvalue \<Rightarrow> Statement option" where
  "read_statement_by_id w v = find (\<lambda>st. v = PStr (st_id st)) (statements_collection w)"

definition get_user_id :: "Statement \<Rightarrow> error + string" where
  "get_user_id statement =
     (case actor_account_name statement of
        None \<Rightarrow> Inl AttributeError
      | Some u \<Rightarrow> Inr u)"

text \<open>The experiences of the user's student model, as \<open>__load_experiences\<close> resolves
  them; \<open>None\<close> when the user has no student model.\<close>

definition read_student_model_by_user_id :: "world \<Rightarrow> string \<Rightarrow> Experience list option" where
  "read_student_model_by_user_id w u =
     (case find (\<lambda>sm. sm_user_id sm = u) (student_models_collection w) of
        None \<Rightarrow> None
      | Some sm \<Rightarrow>
          Some (if experiences sm = [] then []
                else filter (\<lambda>ex. ex_oid ex \<in> set (experiences sm)) (experiences_collection w)))"







section \<open>The engine (model/service/assistance.py)\<close>

definition ASSISTANCE_CONTEXT_PARAMETER_KEY_A_ID :: string where
  "ASSISTANCE_CONTEXT_PARAMETER_KEY_A_ID = ''a_id''"

definition ASSISTANCE_CONTEXT_PARAMETER_KEY_ASSISTANCE_OBJECTS :: string where
  "ASSISTANCE_CONTEXT_PARAMETER_KEY_ASSISTANCE_OBJECTS = ''assistance_objects''"

definition ASSISTANCE_CONTEXT_PARAMETER_KEY_STATEMENT_ID :: string where
  "ASSISTANCE_CONTEXT_PARAMETER_KEY_STATEMENT_ID = ''statement_id''"

definition ASSISTANCE_OPERATION_KEY_INITIATION :: string where
  "ASSISTANCE_OPERATION_KEY_INITIATION = ''initiation''"

definition ASSISTANCE_OBJECT_PARAMETER_KEY_MESSAGE :: string where
  "ASSISTANCE_OBJECT_PARAMETER_KEY_MESSAGE = ''message''"

definition ASSISTANCE_OBJECT_PARAMETER_KEY_STATE_UPDATE :: string where
  "ASSISTANCE_OBJECT_PARAMETER_KEY_STATE_UPDATE = ''state_update''"

definition ASSISTANCE_OBJECT_PARAMETER_KEY_URI :: string where
  "ASSISTANCE_OBJECT_PARAMETER_KEY_URI = ''uri''"

definition ASSISTANCE_PARAMETER_KEY_RELATED_USER_IDS :: string where
  "ASSISTANCE_PARAMETER_KEY_RELATED_USER_IDS = ''related_user_ids''"

definition ASSISTANCE_PARAMETER_KEY_USER_ID_TO_STATE :: string where
  "ASSISTANCE_PARAMETER_KEY_USER_ID_TO_STATE = ''user_states''"

record SubsequentAssistanceOperation =
  so_type :: SubsequentAssistanceOperationType
  operation_key :: string
  time_to_invocation_in_s :: "rat option"

record AssistanceRequest =
  rq_assistance_type_key :: string
  rq_assistance_operation_key :: string
  rq_ctx :: AssistanceContext

record AssistanceResult =
  assistance :: "Assistance list"
  assistance_requests :: "AssistanceRequest list"
  prepend_assistance_from_requests :: bool

text \<open>The attributes that \<open>AssistanceOperation.__init__\<close> sets on \<open>self\<close>.\<close>

record OperationFields =
  target_status :: "AssistanceStateStatus option"
  op_parameters :: "AssistanceParameter list"
  subsequent_operations :: "SubsequentAssistanceOperation list option"
  assistance_in_progress_required :: bool
  delete_scheduled_operations :: bool
  reset_next_operation_keys :: bool
  prevent_progress :: bool
  related_user_ids :: "string option list option"
  op_phase :: "nat option"
  op_step :: "string option"
  state_update_status_to_send :: "AssistanceStateStatus list option"
  send_state_update_to_related_users :: bool

text \<open>
  An operation object: its attributes, and the two methods a subclass may override.
  \<open>is_applicable_method = None\<close> is the base class's \<open>is_applicable\<close>. \<open>_execute\<close>
  receives \<open>self\<close>, the context and the world, and returns its result (or the exception
  it raised) together with \<open>self\<close> as it left it, since subclasses set directives such
  as \<open>target_status\<close> on \<open>self\<close> while executing.
\<close>

record AssistanceOperation =
  self :: OperationFields
  is_applicable_method ::
    "(OperationFields \<Rightarrow> AssistanceContext \<Rightarrow> world \<Rightarrow> error + bool) option"
  execute_method ::
    "OperationFields \<Rightarrow> AssistanceContext \<Rightarrow> world
       \<Rightarrow> (error + AssistanceResult option) \<times> OperationFields \<times> world"

text \<open>The defaults of \<open>AssistanceOperation.__init__\<close> and of \<open>_execute\<close>.\<close>

definition default_fields :: OperationFields where
  "default_fields =
     \<lparr>target_status = None, op_parameters = [], subsequent_operations = None,
      assistance_in_progress_required = False, delete_scheduled_operations = False,
      reset_next_operation_keys = False, prevent_progress = False, related_user_ids = None,
      op_phase = None, op_step = None, state_update_status_to_send = None,
      send_state_update_to_related_users = True\<rparr>"


text \<open>A step's \<open>schedule\<close> is \<open>None\<close> or an \<open>AssistanceOperationSchedule\<close>, given
  here by its \<open>time_to_invocation_in_s\<close>.\<close>

record AssistancePhaseStep =
  ps_operation_key :: string
  ps_parameters :: "AssistanceParameter list"
  operation :: AssistanceOperation
  schedule :: "rat option"

record AssistancePhase =
  ph_parameters :: "AssistanceParameter list"
  steps :: "AssistancePhaseStep list"

record AssistanceProcess =
  get_key :: string
  registered_phases :: "AssistancePhase list"
  registered_operations :: "string \<rightharpoonup> AssistanceOperation"
  registered_operation_keys_to_phase_number :: "string \<rightharpoonup> nat"
  registered_operation_keys_to_step_number :: "string \<rightharpoonup> nat"

definition create_assistance_with_default_parameters ::
  "string option \<Rightarrow> AssistanceObject list \<Rightarrow> Assistance" where
  "create_assistance_with_default_parameters uid objs =
     \<lparr>oid = None, a_id = None, user_id = uid, type_key = None, timestamp = None,
      assistance_state = None, parameters = [], assistance_objects = objs,
      next_operation_keys = []\<rparr>"

definition create_assistance_object_with_default_parameters ::
  "string option \<Rightarrow> AssistanceParameter list \<Rightarrow> AssistanceObject" where
  "create_assistance_object_with_default_parameters uid ps =
     \<lparr>ao_oid = None, ao_a_id = None, assistance_type = None, ao_id = None, ao_user_id = uid,
      ao_timestamp = None, ao_parameters = ps, ao_type = None\<rparr>"

subsection \<open>\<open>AssistanceOperation.is_applicable\<close>\<close>

text \<open>The base method. The instance is read and the result of the read is dropped;
  \<open>read_assistance_by_a_id\<close> returns \<open>None\<close> for an unknown id and raises nothing.\<close>

definition is_applicable :: "OperationFields \<Rightarrow> AssistanceContext \<Rightarrow> world \<Rightarrow> bool" where
  "is_applicable s c w =
     (if \<not> assistance_in_progress_required s then True
      else (case get_parameter c ASSISTANCE_CONTEXT_PARAMETER_KEY_A_ID of
              Inl e \<Rightarrow> False
            | Inr v \<Rightarrow> (case read_assistance_by_a_id w v of None \<Rightarrow> True | Some found \<Rightarrow> True)))"

subsection \<open>\<open>AssistanceProcess.schedule_operation\<close>\<close>

definition is_operation_registered :: "AssistanceProcess \<Rightarrow> string \<Rightarrow> bool" where
  "is_operation_registered process k = (registered_operations process k \<noteq> None)"

definition debug_scheduled_assistance_time_factor :: "world \<Rightarrow> rat" where
  "debug_scheduled_assistance_time_factor w =
     (if debug w
      then (case read_setting_by_key w SETTING_KEY_DEBUG_SCHEDULED_ASSISTANCE_TIME_FACTOR of
              Some stored \<Rightarrow> numeric stored
            | None \<Rightarrow> 1)
      else 1)"

text \<open>A follow-up declared without delay has \<open>time_to_invocation_in_s = None\<close>; the
  multiplication then raises \<open>TypeError\<close>. The product of the delay and the factor is
  taken exactly, as Python computes it for two \<open>int\<close>s (every delay declared in the
  sources is one); with a \<open>float\<close> among them Python rounds the product to a
  \<open>float\<close>, which the model leaves out.\<close>

definition schedule_operation ::
  "AssistanceProcess \<Rightarrow> string \<Rightarrow> AssistanceContext \<Rightarrow> rat option \<Rightarrow> string option
     \<Rightarrow> world \<Rightarrow> (error + unit) \<times> world" where
  "schedule_operation process k c delay aid w =
     (if \<not> is_operation_registered process k then (Inl AssistanceOperationException, w)
      else if \<not> context_can_be_persisted c
      then (Inl AssistanceOperationCanNotBeScheduledException, w)
      else (case delay of
              None \<Rightarrow> (Inl TypeError, w)
            | Some d \<Rightarrow>
                (case create_assistance_operation_for_scheduled_invocation
                        \<lparr>op_oid = None, assistance_type_key = get_key process,
                         assistance_operation_key = k, op_a_id = aid, ctx = parameter_dict c,
                         time_of_invocation = None\<rparr>
                        (d * debug_scheduled_assistance_time_factor w) w of
                   (Inl e, w1) \<Rightarrow> (Inl e, w1)
                 | (Inr stored, w1) \<Rightarrow> (Inr (), w1))))"

subsection \<open>\<open>AssistanceOperation.\_process\_assistance\_result\<close>\<close>

definition filter_subsequent_operations_by_type ::
  "SubsequentAssistanceOperation list option \<Rightarrow> SubsequentAssistanceOperationType
     \<Rightarrow> SubsequentAssistanceOperation list" where
  "filter_subsequent_operations_by_type sos ty =
     (case sos of None \<Rightarrow> [] | Some l \<Rightarrow> filter (\<lambda>so. so_type so = ty) l)"

text \<open>The three conditional expressions that pick the reported status, phase and step.\<close>

definition assistance_state_status_update :: "AssistanceStateStatus \<Rightarrow> Assistance \<Rightarrow> AssistanceStateStatus" where
  "assistance_state_status_update target a =
     (case assistance_state a of
        None \<Rightarrow> INITIATED
      | Some st \<Rightarrow> (case status st of
                      None \<Rightarrow> INITIATED
                    | Some x \<Rightarrow> if target \<noteq> x then target else x))"

definition assistance_state_phase_update :: "nat \<Rightarrow> Assistance \<Rightarrow> nat" where
  "assistance_state_phase_update p a =
     (case assistance_state a of
        None \<Rightarrow> 1
      | Some st \<Rightarrow> (case phase st of None \<Rightarrow> 1 | Some x \<Rightarrow> if p \<noteq> x then p else x))"

definition assistance_state_step_update :: "string \<Rightarrow> Assistance \<Rightarrow> string" where
  "assistance_state_step_update k a =
     (case assistance_state a of
        None \<Rightarrow> ASSISTANCE_OPERATION_KEY_INITIATION
      | Some st \<Rightarrow> (case step st of
                      None \<Rightarrow> ASSISTANCE_OPERATION_KEY_INITIATION
                    | Some x \<Rightarrow> if k \<noteq> x then k else x))"

text \<open>The \<open>related_user_ids\<close> parameter is declared as a list of strings; any other
  value is outside the model and reported as \<open>TypeError\<close>.\<close>

fun user_id_of_value :: "pyvalue \<Rightarrow> string option option" where
  "user_id_of_value (PStr u) = Some (Some u)"
| "user_id_of_value PNone = Some None"
| "user_id_of_value v = None"

definition user_ids_of_value :: "pyvalue \<Rightarrow> error + string option list" where
  "user_ids_of_value v =
     (case v of
        PList vs \<Rightarrow> if list_all (\<lambda>x. user_id_of_value x \<noteq> None) vs
                    then Inr (map (\<lambda>x. the (user_id_of_value x)) vs)
                    else Inl TypeError
      | _ \<Rightarrow> Inl TypeError)"

text \<open>\<open>AssistanceState(...).to_dict()\<close> without the entries that are \<open>None\<close>.\<close>

definition state_update_value ::
  "AssistanceStateStatus \<Rightarrow> nat option \<Rightarrow> string option \<Rightarrow> pyvalue" where
  "state_update_value su pu stu =
     PDict ([(PStr ''status'', PStr (status_value su))]
            @ (case pu of None \<Rightarrow> [] | Some p \<Rightarrow> [(PStr ''phase'', PInt (int p))])
            @ (case stu of None \<Rightarrow> [] | Some k \<Rightarrow> [(PStr ''step'', PStr k)]))"

definition ids_of_users_to_update :: "OperationFields \<Rightarrow> Assistance \<Rightarrow> error + string option list" where
  "ids_of_users_to_update s a =
     (if send_state_update_to_related_users s
      then (case related_user_ids s of
              Some ids \<Rightarrow> Inr ids
            | None \<Rightarrow>
               (case find (\<lambda>parameter. key parameter = ASSISTANCE_PARAMETER_KEY_RELATED_USER_IDS)
                       (parameters a) of
                  None \<Rightarrow> Inr [user_id a]
                | Some parameter \<Rightarrow>
                    if val parameter = PNone then Inr [user_id a]
                    else user_ids_of_value (val parameter)))
      else Inr [user_id a])"

definition compute_state_update_assistance_objects ::
  "OperationFields \<Rightarrow> Assistance \<Rightarrow> AssistanceStateStatus \<Rightarrow> nat option \<Rightarrow> string option
     \<Rightarrow> error + AssistanceObject list" where
  "compute_state_update_assistance_objects s a su pu stu =
     (if (case state_update_status_to_send s of None \<Rightarrow> False | Some l \<Rightarrow> su \<notin> set l)
      then Inr []
      else (case ids_of_users_to_update s a of
              Inl e \<Rightarrow> Inl e
            | Inr ids \<Rightarrow>
                Inr (map (\<lambda>id_of_user_to_update.
                            create_assistance_object_with_default_parameters id_of_user_to_update
                              [\<lparr>key = ASSISTANCE_OBJECT_PARAMETER_KEY_STATE_UPDATE,
                                val = state_update_value su pu stu\<rparr>]) ids)))"

text \<open>The per-user progress map: the stored \<open>user_states\<close> dictionary (empty when the
  parameter is missing), one entry set per synthesized object. Item assignment on a
  value that is no dictionary raises \<open>TypeError\<close>.\<close>

definition set_user_states :: "AssistanceObject list \<Rightarrow> Assistance \<Rightarrow> error + Assistance" where
  "set_user_states status_objects a =
     (if status_objects = [] then Inr a
      else (case (case get_first_assistance_parameter_by_key (parameters a)
                         ASSISTANCE_PARAMETER_KEY_USER_ID_TO_STATE of
                    Inl e \<Rightarrow> Some []
                  | Inr p \<Rightarrow> (case val p of PDict d \<Rightarrow> Some d | _ \<Rightarrow> None)) of
              None \<Rightarrow> Inl TypeError
            | Some user_states \<Rightarrow>
                Inr (a\<lparr>parameters :=
                  replace_or_add_assistance_parameters_by_key
                    \<lparr>key = ASSISTANCE_PARAMETER_KEY_USER_ID_TO_STATE,
                     val = PDict (foldl (\<lambda>d ao. AList.update (py_of_id (ao_user_id ao))
                                             (case get_first_assistance_parameter_by_key
                                                     (ao_parameters ao)
                                                     ASSISTANCE_OBJECT_PARAMETER_KEY_STATE_UPDATE of
                                                Inr p \<Rightarrow> val p | Inl e \<Rightarrow> PNone) d)
                                   user_states status_objects)\<rparr>
                    (Some (parameters a))\<rparr>)))"

text \<open>The block ``Determine state update''. The second branch stores the default list
  of statuses on \<open>self\<close>.\<close>

definition determine_state_update ::
  "OperationFields \<Rightarrow> Assistance \<Rightarrow> (error + Assistance) \<times> OperationFields" where
  "determine_state_update s a =
     (case target_status s of
        None \<Rightarrow> (Inr a, s)
      | Some target \<Rightarrow>
          (case (op_phase s, op_step s) of
             (Some p, Some k) \<Rightarrow>
               (case compute_state_update_assistance_objects s a
                       (assistance_state_status_update target a)
                       (Some (assistance_state_phase_update p a))
                       (Some (assistance_state_step_update k a)) of
                  Inl e \<Rightarrow> (Inl e, s)
                | Inr status_objects \<Rightarrow>
                    (set_user_states status_objects
                       (a\<lparr>assistance_objects := status_objects @ assistance_objects a\<rparr>), s))
           | _ \<Rightarrow>
               (let s1 = (if state_update_status_to_send s = None
                          then s\<lparr>state_update_status_to_send := Some [ABORTED, COMPLETED]\<rparr>
                          else s)
                in (case compute_state_update_assistance_objects s1 a
                          (assistance_state_status_update target a) None None of
                      Inl e \<Rightarrow> (Inl e, s1)
                    | Inr status_objects \<Rightarrow>
                        (Inr (a\<lparr>assistance_objects := status_objects @ assistance_objects a\<rparr>),
                         s1)))))"

text \<open>The block ``Set assistance properties''.\<close>

definition set_assistance_properties ::
  "OperationFields \<Rightarrow> SubsequentAssistanceOperation list \<Rightarrow> Assistance \<Rightarrow> Assistance" where
  "set_assistance_properties s subsequent_triggered_operations a =
     (if \<not> prevent_progress s
      then a\<lparr>assistance_state :=
               Some \<lparr>status = target_status s, phase = op_phase s, step = op_step s\<rparr>,
             next_operation_keys := map operation_key subsequent_triggered_operations\<rparr>
      else a)"

text \<open>The block ``Set type of new assistance objects''.\<close>

definition set_type_of_new_assistance_objects :: "AssistanceProcess \<Rightarrow> Assistance \<Rightarrow> Assistance" where
  "set_type_of_new_assistance_objects process a =
     a\<lparr>assistance_objects :=
         map (\<lambda>assistance_object.
                assistance_object\<lparr>assistance_type := Some (get_key process),
                  ao_type := (case ao_type assistance_object of
                                None \<Rightarrow> Some ASSISTANCE_OBJECT
                              | Some ty \<Rightarrow> Some ty)\<rparr>)
           (assistance_objects a)\<rparr>"

text \<open>The blocks ``Create new assistance'' and ``or update existing assistance''. Reading
  the objects of a previous instance that does not exist raises \<open>AttributeError\<close>.\<close>

definition persist_assistance ::
  "AssistanceProcess \<Rightarrow> Assistance \<Rightarrow> world \<Rightarrow> (error + Assistance) \<times> world" where
  "persist_assistance process a w =
     (if a_id a = None
      then create_assistance (a\<lparr>type_key := Some (get_key process)\<rparr>) w
      else (case read_assistance_by_a_id w (py_of_id (a_id a)) of
              None \<Rightarrow> (Inl AttributeError, w)
            | Some previous_assistance \<Rightarrow>
                (case update_assistance_adding_assistance_objects a w of
                   (Inl e, w1) \<Rightarrow> (Inl e, w1)
                 | (Inr persisted_assistance, w1) \<Rightarrow>
                     (Inr (persisted_assistance\<lparr>assistance_objects :=
                             filter (\<lambda>assistance_object.
                                       ao_id assistance_object
                                         \<notin> set (map ao_id (assistance_objects previous_assistance)))
                               (assistance_objects persisted_assistance)\<rparr>),
                      w1))))"

text \<open>The loop ``Schedule operations''.\<close>

fun schedule_operations ::
  "AssistanceProcess \<Rightarrow> SubsequentAssistanceOperation list \<Rightarrow> Assistance \<Rightarrow> world
     \<Rightarrow> (error + unit) \<times> world" where
  "schedule_operations process [] persisted_assistance w = (Inr (), w)"
| "schedule_operations process (subsequent_scheduled_operation # rest) persisted_assistance w =
     (case schedule_operation process (operation_key subsequent_scheduled_operation)
             (new_context [(ASSISTANCE_CONTEXT_PARAMETER_KEY_A_ID,
                            py_of_id (a_id persisted_assistance))])
             (time_to_invocation_in_s subsequent_scheduled_operation)
             (a_id persisted_assistance) w of
        (Inl e, w1) \<Rightarrow> (Inl e, w1)
      | (Inr u, w1) \<Rightarrow> schedule_operations process rest persisted_assistance w1)"

text \<open>The first block: without a result to process, an operation that requires an
  instance in progress loads it and empties its object list; assigning to the attribute
  of a missing instance raises \<open>AttributeError\<close>.\<close>

definition assistance_to_process_or_existing ::
  "OperationFields \<Rightarrow> Assistance option \<Rightarrow> AssistanceContext \<Rightarrow> world
     \<Rightarrow> error + Assistance option" where
  "assistance_to_process_or_existing s assistance_to_process c w =
     (case assistance_to_process of
        Some a \<Rightarrow> Inr (Some a)
      | None \<Rightarrow>
          if assistance_in_progress_required s
          then (case get_parameter c ASSISTANCE_CONTEXT_PARAMETER_KEY_A_ID of
                  Inl e \<Rightarrow> Inl e
                | Inr v \<Rightarrow> (case read_assistance_by_a_id w v of
                              None \<Rightarrow> Inl AttributeError
                            | Some a \<Rightarrow> Inr (Some (a\<lparr>assistance_objects := []\<rparr>))))
          else Inr None)"

definition process_assistance_result ::
  "AssistanceProcess \<Rightarrow> OperationFields \<Rightarrow> Assistance option \<Rightarrow> AssistanceContext
     \<Rightarrow> SubsequentAssistanceOperation list \<Rightarrow> SubsequentAssistanceOperation list \<Rightarrow> world
     \<Rightarrow> (error + Assistance option) \<times> OperationFields \<times> world" where
  "process_assistance_result process s assistance_to_process c subsequent_scheduled_operations
       subsequent_triggered_operations w =
     (case assistance_to_process_or_existing s assistance_to_process c w of
        Inl e \<Rightarrow> (Inl e, s, w)
      | Inr None \<Rightarrow> (Inr None, s, w)
      | Inr (Some a) \<Rightarrow>
          (case determine_state_update s a of
             (Inl e, s1) \<Rightarrow> (Inl e, s1, w)
           | (Inr a1, s1) \<Rightarrow>
               (case persist_assistance process
                       (set_type_of_new_assistance_objects process
                          (set_assistance_properties s1 subsequent_triggered_operations a1)) w of
                  (Inl e, w1) \<Rightarrow> (Inl e, s1, w1)
                | (Inr persisted_assistance, w1) \<Rightarrow>
                    (case schedule_operations process subsequent_scheduled_operations
                            persisted_assistance w1 of
                       (Inl e, w2) \<Rightarrow> (Inl e, s1, w2)
                     | (Inr u, w2) \<Rightarrow> (Inr (Some persisted_assistance), s1, w2)))))"

subsection \<open>\<open>AssistanceOperation.execute\<close>\<close>

text \<open>The two guarded calls between \<open>_execute\<close> and the processing of its result.\<close>

definition reset_bookkeeping ::
  "OperationFields \<Rightarrow> AssistanceContext \<Rightarrow> world \<Rightarrow> (error + unit) \<times> world" where
  "reset_bookkeeping s c w =
     (case (if assistance_in_progress_required s \<and> reset_next_operation_keys s
               \<and> \<not> prevent_progress s
            then (case get_parameter c ASSISTANCE_CONTEXT_PARAMETER_KEY_A_ID of
                    Inl e \<Rightarrow> (Inl e, w)
                  | Inr v \<Rightarrow> (Inr (), update_assistance_by_a_id_reset_next_operation_keys v w))
            else (Inr (), w)) of
        (Inl e, w1) \<Rightarrow> (Inl e, w1)
      | (Inr u, w1) \<Rightarrow>
          (if assistance_in_progress_required s \<and> delete_scheduled_operations s
              \<and> \<not> prevent_progress s
           then (case get_parameter c ASSISTANCE_CONTEXT_PARAMETER_KEY_A_ID of
                   Inl e \<Rightarrow> (Inl e, w1)
                 | Inr v \<Rightarrow> (Inr (), delete_assistance_operations_by_a_id v w1))
           else (Inr (), w1)))"

text \<open>The loop over \<open>result.assistance\<close>; a processed result that is \<open>None\<close> is
  skipped.\<close>

fun process_assistance_results ::
  "AssistanceProcess \<Rightarrow> OperationFields \<Rightarrow> Assistance list \<Rightarrow> AssistanceContext
     \<Rightarrow> SubsequentAssistanceOperation list \<Rightarrow> SubsequentAssistanceOperation list \<Rightarrow> world
     \<Rightarrow> (error + Assistance list) \<times> OperationFields \<times> world" where
  "process_assistance_results process s [] c sched trig w = (Inr [], s, w)"
| "process_assistance_results process s (a # rest) c sched trig w =
     (case process_assistance_result process s (Some a) c sched trig w of
        (Inl e, s1, w1) \<Rightarrow> (Inl e, s1, w1)
      | (Inr processed_assistance_result, s1, w1) \<Rightarrow>
          (case process_assistance_results process s1 rest c sched trig w1 of
             (Inl e, s2, w2) \<Rightarrow> (Inl e, s2, w2)
           | (Inr assistance_to_return, s2, w2) \<Rightarrow>
               (Inr ((case processed_assistance_result of None \<Rightarrow> [] | Some p \<Rightarrow> [p])
                     @ assistance_to_return), s2, w2)))"

definition subsequent_triggered_operations :: "OperationFields \<Rightarrow> SubsequentAssistanceOperation list" where
  "subsequent_triggered_operations s =
     (if prevent_progress s then []
      else filter_subsequent_operations_by_type (subsequent_operations s) TRIGGERED_OPERATION)"

definition subsequent_scheduled_operations :: "OperationFields \<Rightarrow> SubsequentAssistanceOperation list" where
  "subsequent_scheduled_operations s =
     (if prevent_progress s then []
      else filter_subsequent_operations_by_type (subsequent_operations s) SCHEDULED_OPERATION)"

text \<open>\<open>self\<close> as \<open>execute\<close> sets it up before it calls \<open>_execute\<close>.\<close>

definition self_before_execute :: "AssistanceOperation \<Rightarrow> nat option \<Rightarrow> string option \<Rightarrow> OperationFields" where
  "self_before_execute opn ph st =
     (self opn)\<lparr>op_phase := ph, op_step := st,
       reset_next_operation_keys :=
         (reset_next_operation_keys (self opn) \<or> subsequent_operations (self opn) \<noteq> None)\<rparr>"

definition execute ::
  "AssistanceProcess \<Rightarrow> AssistanceOperation \<Rightarrow> AssistanceContext \<Rightarrow> nat option \<Rightarrow> string option
     \<Rightarrow> world \<Rightarrow> (error + AssistanceResult option) \<times> world" where
  "execute process opn c ph st w =
     (case execute_method opn (self_before_execute opn ph st) c w of
        (Inl e, s1, w1) \<Rightarrow> (Inl e, w1)
      | (Inr result, s1, w1) \<Rightarrow>
          (case reset_bookkeeping s1 c w1 of
             (Inl e, w2) \<Rightarrow> (Inl e, w2)
           | (Inr u, w2) \<Rightarrow>
               (case result of
                  None \<Rightarrow>
                    (case process_assistance_result process s1 None c
                            (subsequent_scheduled_operations s1)
                            (subsequent_triggered_operations s1) w2 of
                       (Inl e, s2, w3) \<Rightarrow> (Inl e, w3)
                     | (Inr p, s2, w3) \<Rightarrow> (Inr None, w3))
                | Some res \<Rightarrow>
                    if assistance res \<noteq> []
                    then (case process_assistance_results process s1 (assistance res) c
                                 (subsequent_scheduled_operations s1)
                                 (subsequent_triggered_operations s1) w2 of
                            (Inl e, s2, w3) \<Rightarrow> (Inl e, w3)
                          | (Inr assistance_to_return, s2, w3) \<Rightarrow>
                              (Inr (Some (res\<lparr>assistance := assistance_to_return\<rparr>)), w3))
                    else (case process_assistance_result process s1 None c
                                 (subsequent_scheduled_operations s1)
                                 (subsequent_triggered_operations s1) w2 of
                            (Inl e, s2, w3) \<Rightarrow> (Inl e, w3)
                          | (Inr p, s2, w3) \<Rightarrow> (Inr (Some (res\<lparr>assistance := []\<rparr>)), w3)))))"

subsection \<open>\<open>AssistanceProcess.check_applicability_and_execute_operation\<close>\<close>

definition check_applicability_and_execute_operation ::
  "AssistanceProcess \<Rightarrow> string \<Rightarrow> AssistanceContext \<Rightarrow> world
     \<Rightarrow> (error + AssistanceResult option) \<times> world" where
  "check_applicability_and_execute_operation process k c w =
     (case registered_operations process k of
        None \<Rightarrow> (Inl AssistanceOperationException, w)
      | Some opn \<Rightarrow>
          (case (case is_applicable_method opn of
                   None \<Rightarrow> Inr (is_applicable (self opn) c w)
                 | Some m \<Rightarrow> m (self opn) c w) of
             Inl e \<Rightarrow> (Inl e, w)
           | Inr applicable \<Rightarrow>
               if \<not> applicable then (Inr None, w)
               else execute process opn c (registered_operation_keys_to_phase_number process k)
                      (Some k) w))"

subsection \<open>\<open>AssistanceProcess.\_register\_phases\<close> and \<open>\_register\_operation\<close>\<close>

text \<open>The local variables of \<open>_register_phases\<close>.\<close>

record registration =
  operations_to_register :: "string \<rightharpoonup> AssistanceOperation"
  keys_of_operations_to_register_to_phase_number :: "string \<rightharpoonup> nat"
  keys_of_operations_to_register_to_step_number :: "string \<rightharpoonup> nat"
  step_number :: nat

definition is_last_step :: "AssistancePhase list \<Rightarrow> nat \<Rightarrow> nat \<Rightarrow> bool" where
  "is_last_step phases phase_index step_index =
     (int phase_index = int (length phases) - 1
      \<and> int step_index = int (length (steps (phases ! phase_index))) - 1)"

text \<open>\<open>phases[phase_index + 1].steps[0]\<close> raises \<open>IndexError\<close> when there is no such
  phase or it has no step.\<close>

definition next_step_of :: "AssistancePhase list \<Rightarrow> nat \<Rightarrow> nat \<Rightarrow> error + AssistancePhaseStep" where
  "next_step_of phases phase_index step_index =
     (if int step_index \<noteq> int (length (steps (phases ! phase_index))) - 1
      then (if step_index + 1 < length (steps (phases ! phase_index))
            then Inr (steps (phases ! phase_index) ! (step_index + 1))
            else Inl IndexError)
      else if phase_index + 1 < length phases
      then (case steps (phases ! (phase_index + 1)) of
              [] \<Rightarrow> Inl IndexError
            | first_step # others \<Rightarrow> Inr first_step)
      else Inl IndexError)"

definition subsequent_operation_for :: "AssistancePhaseStep \<Rightarrow> SubsequentAssistanceOperation" where
  "subsequent_operation_for next_step =
     (case schedule next_step of
        None \<Rightarrow> \<lparr>so_type = TRIGGERED_OPERATION, operation_key = ps_operation_key next_step,
                 time_to_invocation_in_s = None\<rparr>
      | Some d \<Rightarrow> \<lparr>so_type = SCHEDULED_OPERATION, operation_key = ps_operation_key next_step,
                   time_to_invocation_in_s = Some d\<rparr>)"

text \<open>The body of the inner loop. Each step owns its operation object, so the
  mutation of \<open>step.operation\<close> is the value stored in the dictionary.\<close>

definition register_step ::
  "AssistancePhase list \<Rightarrow> nat \<Rightarrow> nat \<Rightarrow> AssistancePhaseStep \<Rightarrow> registration
     \<Rightarrow> error + registration" where
  "register_step phases phase_index step_index stp reg =
     (if ps_operation_key stp \<in> dom (operations_to_register reg)
      then Inl AssistanceOperationException
      else
        (let reg1 = reg\<lparr>step_number := step_number reg + 1,
                     keys_of_operations_to_register_to_phase_number :=
                       (keys_of_operations_to_register_to_phase_number reg)
                         (ps_operation_key stp \<mapsto> phase_index + 1),
                     keys_of_operations_to_register_to_step_number :=
                       (keys_of_operations_to_register_to_step_number reg)
                         (ps_operation_key stp \<mapsto> step_number reg + 1)\<rparr>;
             operation_to_register =
               (if phase_index \<noteq> 0 \<or> step_index \<noteq> 0
                then (operation stp)\<lparr>self := (self (operation stp))
                                        \<lparr>assistance_in_progress_required := True\<rparr>\<rparr>
                else operation stp)
         in if is_last_step phases phase_index step_index
            then Inr (reg1\<lparr>operations_to_register :=
                        (operations_to_register reg1)(ps_operation_key stp \<mapsto> operation_to_register)\<rparr>)
            else (case next_step_of phases phase_index step_index of
                    Inl e \<Rightarrow> Inl e
                  | Inr next_step \<Rightarrow>
                      Inr (reg1\<lparr>operations_to_register :=
                        (operations_to_register reg1)(ps_operation_key stp \<mapsto>
                          operation_to_register\<lparr>self := (self operation_to_register)
                            \<lparr>subsequent_operations :=
                               Some ((case subsequent_operations (self operation_to_register) of
                                        None \<Rightarrow> [] | Some l \<Rightarrow> l)
                                     @ [subsequent_operation_for next_step])\<rparr>\<rparr>)\<rparr>))))"

fun register_steps ::
  "AssistancePhase list \<Rightarrow> nat \<Rightarrow> nat \<Rightarrow> AssistancePhaseStep list \<Rightarrow> registration
     \<Rightarrow> error + registration" where
  "register_steps phases phase_index step_index [] reg = Inr reg"
| "register_steps phases phase_index step_index (stp # rest) reg =
     (case register_step phases phase_index step_index stp reg of
        Inl e \<Rightarrow> Inl e
      | Inr reg1 \<Rightarrow> register_steps phases phase_index (Suc step_index) rest reg1)"

fun register_phases_loop ::
  "AssistancePhase list \<Rightarrow> nat \<Rightarrow> AssistancePhase list \<Rightarrow> registration \<Rightarrow> error + registration" where
  "register_phases_loop phases phase_index [] reg = Inr reg"
| "register_phases_loop phases phase_index (ph # rest) reg =
     (case register_steps phases phase_index 0 (steps ph) reg of
        Inl e \<Rightarrow> Inl e
      | Inr reg1 \<Rightarrow> register_phases_loop phases (Suc phase_index) rest reg1)"

definition register_phases :: "AssistanceProcess \<Rightarrow> AssistancePhase list \<Rightarrow> error + AssistanceProcess" where
  "register_phases process phases =
     (case register_phases_loop phases 0 phases
             \<lparr>operations_to_register = Map.empty,
              keys_of_operations_to_register_to_phase_number = Map.empty,
              keys_of_operations_to_register_to_step_number = Map.empty,
              step_number = 0\<rparr> of
        Inl e \<Rightarrow> Inl e
      | Inr reg \<Rightarrow>
          Inr (process\<lparr>registered_operations :=
                         registered_operations process ++ operations_to_register reg,
                       registered_operation_keys_to_phase_number :=
                         keys_of_operations_to_register_to_phase_number reg,
                       registered_operation_keys_to_step_number :=
                         keys_of_operations_to_register_to_step_number reg,
                       registered_phases := phases\<rparr>))"

definition register_operation ::
  "AssistanceProcess \<Rightarrow> string \<Rightarrow> AssistanceOperation \<Rightarrow> error + AssistanceProcess" where
  "register_operation process k opn =
     (if is_operation_registered process k then Inl AssistanceOperationException
      else Inr (process\<lparr>registered_operations := (registered_operations process)(k \<mapsto> opn)\<rparr>))"

definition new_process :: "string \<Rightarrow> AssistanceProcess" where
  "new_process k =
     \<lparr>get_key = k, registered_phases = [], registered_operations = Map.empty,
      registered_operation_keys_to_phase_number = Map.empty,
      registered_operation_keys_to_step_number = Map.empty\<rparr>"

section \<open>Dispatcher, chaining and scheduler (service/assistance.py)\<close>

text \<open>
  \<open>ASSISTANCE_TYPES\<close> maps a type key to a constructor; every request builds a
  fresh process object from it, so the dictionary is given here as the list of keys with
  the process each constructor builds.
\<close>

type_synonym assistance_types = "(string \<times> AssistanceProcess) list"

text \<open>The loop over \<open>assistance_result.assistance_requests\<close>, with the recursive call
  as parameter \<open>h\<close>. A chained request that resolves to \<open>None\<close> makes
  \<open>.assistance\<close> raise \<open>AttributeError\<close>.\<close>

fun handle_chained_requests ::
  "(AssistanceRequest \<Rightarrow> string list \<Rightarrow> world \<Rightarrow> (error + AssistanceResult option) \<times> world)
     \<Rightarrow> AssistanceRequest list \<Rightarrow> string list \<Rightarrow> Assistance list \<Rightarrow> world
     \<Rightarrow> (error + Assistance list) \<times> world" where
  "handle_chained_requests h [] supported acc w = (Inr acc, w)"
| "handle_chained_requests h (assistance_request # rest) supported acc w =
     (case h assistance_request supported w of
        (Inl e, w1) \<Rightarrow> (Inl e, w1)
      | (Inr None, w1) \<Rightarrow> (Inl AttributeError, w1)
      | (Inr (Some r), w1) \<Rightarrow> handle_chained_requests h rest supported (acc @ assistance r) w1)"

text \<open>
  \<open>__handle_assistance_request\<close>. The first argument bounds the depth of the chaining
  recursion, as the interpreter's recursion limit does: a request graph deeper than the
  bound ends in \<open>RecursionError\<close>.
\<close>

primrec handle_assistance_request ::
  "nat \<Rightarrow> assistance_types \<Rightarrow> AssistanceRequest \<Rightarrow> string list \<Rightarrow> world
     \<Rightarrow> (error + AssistanceResult option) \<times> world" where
  "handle_assistance_request 0 TYPES assistance_request supported w = (Inl RecursionError, w)"
| "handle_assistance_request (Suc n) TYPES assistance_request supported w =
     (if rq_assistance_type_key assistance_request \<in> set (DISABLED_ASSISTANCE_TYPE_KEYS w)
         \<or> rq_assistance_type_key assistance_request \<notin> set supported
      then (Inr None, w)
      else (case map_of TYPES (rq_assistance_type_key assistance_request) of
              None \<Rightarrow> (Inl KeyError, w)
            | Some process \<Rightarrow>
                (case check_applicability_and_execute_operation process
                        (rq_assistance_operation_key assistance_request)
                        (rq_ctx assistance_request) w of
                   (Inl e, w1) \<Rightarrow> (Inl e, w1)
                 | (Inr None, w1) \<Rightarrow> (Inr None, w1)
                 | (Inr (Some assistance_result), w1) \<Rightarrow>
                     if assistance_requests assistance_result = []
                     then (Inr (Some assistance_result), w1)
                     else
                       (case handle_chained_requests (handle_assistance_request n TYPES)
                               (assistance_requests assistance_result) supported
                               (if prepend_assistance_from_requests assistance_result then []
                                else assistance assistance_result) w1 of
                          (Inl e, w2) \<Rightarrow> (Inl e, w2)
                        | (Inr acc, w2) \<Rightarrow>
                            (Inr (Some \<lparr>assistance =
                                          (if prepend_assistance_from_requests assistance_result
                                           then acc @ assistance assistance_result
                                           else acc),
                                        assistance_requests = [],
                                        prepend_assistance_from_requests = False\<rparr>),
                             w2)))))"


text \<open>\<open>get_assistance_type_keys\<close>: the keys of the types whose entry in
  \<open>ASSISTANCE_TYPES\<close> is not disabled, each as the process itself reports it.\<close>

definition get_assistance_type_keys :: "assistance_types \<Rightarrow> world \<Rightarrow> string list" where
  "get_assistance_type_keys TYPES w =
     map (\<lambda>(k, process). get_key process)
       (filter (\<lambda>(k, process). k \<notin> set (DISABLED_ASSISTANCE_TYPE_KEYS w)) TYPES)"


subsection \<open>\<open>check_scheduled_assistance_operations\<close>\<close>






subsection \<open>\<open>update_assistance\<close> (the \<open>appendResponse\<close> path)\<close>

text \<open>The loop over the \<open>next_operation_keys\<close> of an instance, which
  \<open>update_assistance\<close> and \<open>assistance_by_statement\<close> both have; an
  \<open>AssistanceOperationException\<close> skips the key, any other exception leaves the loop.\<close>

fun next_operation_keys_loop ::
  "nat \<Rightarrow> assistance_types \<Rightarrow> string option \<Rightarrow> string list \<Rightarrow> AssistanceContext \<Rightarrow> string list
     \<Rightarrow> Assistance list \<Rightarrow> world \<Rightarrow> (error + Assistance list) \<times> world" where
  "next_operation_keys_loop n TYPES tk [] c supported acc w = (Inr acc, w)"
| "next_operation_keys_loop n TYPES tk (next_operation_key # rest) c supported acc w =
     (case (case tk of
              None \<Rightarrow> (Inr None, w)
            | Some k \<Rightarrow> handle_assistance_request n TYPES
                         \<lparr>rq_assistance_type_key = k,
                          rq_assistance_operation_key = next_operation_key, rq_ctx = c\<rparr>
                         supported w) of
        (Inl e, w1) \<Rightarrow>
          if e = AssistanceOperationException
          then next_operation_keys_loop n TYPES tk rest c supported acc w1
          else (Inl e, w1)
      | (Inr None, w1) \<Rightarrow> next_operation_keys_loop n TYPES tk rest c supported acc w1
      | (Inr (Some r), w1) \<Rightarrow>
          next_operation_keys_loop n TYPES tk rest c supported (acc @ assistance r) w1)"

text \<open>A response object as a context value: an instance of the model class.\<close>

definition object_value :: "AssistanceObject \<Rightarrow> pyvalue" where
  "object_value ao =
     PObject ''model.core.tutorial_module''
       [(PStr ''a_id'', py_of_id (ao_a_id ao)),
        (PStr ''ao_id'', py_of_id (ao_id ao)),
        (PStr ''user_id'', py_of_id (ao_user_id ao)),
        (PStr ''parameters'',
           PList (map (\<lambda>p. PDict [(PStr ''key'', PStr (key p)), (PStr ''value'', val p)])
                    (ao_parameters ao)))]"

text \<open>The context holds the very objects that were stored, so it sees the ids that
  \<open>create_assistance_objects\<close> assigned to them.\<close>

definition update_assistance ::
  "nat \<Rightarrow> assistance_types \<Rightarrow> pyvalue \<Rightarrow> AssistanceObject list \<Rightarrow> world
     \<Rightarrow> (error + AssistanceResult option) \<times> world" where
  "update_assistance n TYPES aid assistance_response_objects w =
     (let response_objects =
            map (\<lambda>assistance_object. assistance_object\<lparr>ao_type := Some ASSISTANCE_RESPONSE_OBJECT\<rparr>)
              assistance_response_objects
      in (case update_assistance_by_a_id_adding_assistance_objects aid response_objects w of
            (Inl e, w1) \<Rightarrow> (Inl e, w1)
          | (Inr stored, w1) \<Rightarrow>
              (case next_operation_keys_loop n TYPES (type_key stored) (next_operation_keys stored)
                      (new_context
                         [(ASSISTANCE_CONTEXT_PARAMETER_KEY_A_ID, aid),
                          (ASSISTANCE_CONTEXT_PARAMETER_KEY_ASSISTANCE_OBJECTS,
                           PList (map object_value
                                    (fst (create_assistance_objects_loop response_objects
                                            (a_id stored) w))))])
                      (get_assistance_type_keys TYPES w1) [] w1 of
                 (Inl e, w2) \<Rightarrow> (Inl e, w2)
               | (Inr assistance_update_result, w2) \<Rightarrow>
                   (if assistance_update_result = [] then (Inr None, w2)
                    else (Inr (Some \<lparr>assistance = assistance_update_result,
                                     assistance_requests = [],
                                     prepend_assistance_from_requests = False\<rparr>), w2)))))"

subsection \<open>\<open>assistance_by_statement\<close> (the event path)\<close>




section \<open>The greeting process (assistance/reactive\_assistance/greeting.py)\<close>

definition LOCALE_IDENTIFIER_DE :: string where
  "LOCALE_IDENTIFIER_DE = ''de''"

definition TOOLCHECK_SCREENCAST_HINT_OPERATION_KEY :: string where
  "TOOLCHECK_SCREENCAST_HINT_OPERATION_KEY = ''screencast_hint_operation''"

text \<open>
  \<open>GreetingAssistanceInitiationOperation.is_applicable\<close>. Its handler is written
  \<open>except (AssistanceParameterException | AttributeError)\<close>; the union of two classes
  is no exception class, so an exception that reaches the handler ends in
  \<open>TypeError\<close>.
\<close>

definition greeting_is_applicable ::
  "OperationFields \<Rightarrow> AssistanceContext \<Rightarrow> world \<Rightarrow> error + bool" where
  "greeting_is_applicable s c w =
     (case get_parameter c ASSISTANCE_CONTEXT_PARAMETER_KEY_STATEMENT_ID of
        Inl e \<Rightarrow> Inl TypeError
      | Inr v \<Rightarrow>
          (case read_statement_by_id w v of
             None \<Rightarrow> Inr False
           | Some statement \<Rightarrow>
               (case verb_id statement of
                  None \<Rightarrow> Inl TypeError
                | Some x \<Rightarrow> Inr (x = LOGGED_IN))))"

definition greeting_execute ::
  "OperationFields \<Rightarrow> AssistanceContext \<Rightarrow> world
     \<Rightarrow> (error + AssistanceResult option) \<times> OperationFields \<times> world" where
  "greeting_execute s c w =
     (case get_parameter c ASSISTANCE_CONTEXT_PARAMETER_KEY_STATEMENT_ID of
        Inl e \<Rightarrow> (Inl e, s, w)
      | Inr v \<Rightarrow>
          (case read_statement_by_id w v of
             None \<Rightarrow> (Inl AttributeError, s, w)
           | Some statement \<Rightarrow>
               (case get_user_id statement of
                  Inl e \<Rightarrow> (Inl e, s, w)
                | Inr u \<Rightarrow>
                    (case read_student_model_by_user_id w u of
                       None \<Rightarrow> (Inl StudentModelNotExistsError, s, w)
                     | Some student_experiences \<Rightarrow>
                         (let (message, s1) =
                                (if length student_experiences \<le> 1
                                 then (t w LOCALE_IDENTIFIER_DE ''assistance.greeting.operation.greeting'',
                                       s\<lparr>target_status := Some IN_PROGRESS,
                                         subsequent_operations :=
                                           Some [\<lparr>so_type = SCHEDULED_OPERATION,
                                                  operation_key = TOOLCHECK_SCREENCAST_HINT_OPERATION_KEY,
                                                  time_to_invocation_in_s = Some 5\<rparr>]\<rparr>)
                                 else (t w LOCALE_IDENTIFIER_DE
                                         ''assistance.greeting.operation.welcome_back'', s))
                          in (Inr (Some
                                \<lparr>assistance =
                                   [create_assistance_with_default_parameters (Some u)
                                      [create_assistance_object_with_default_parameters (Some u)
                                         [\<lparr>key = ASSISTANCE_OBJECT_PARAMETER_KEY_MESSAGE,
                                           val = PStr message\<rparr>]]],
                                 assistance_requests = [],
                                 prepend_assistance_from_requests = False\<rparr>), s1, w))))))"

definition toolcheck_screencast_hint_execute ::
  "OperationFields \<Rightarrow> AssistanceContext \<Rightarrow> world
     \<Rightarrow> (error + AssistanceResult option) \<times> OperationFields \<times> world" where
  "toolcheck_screencast_hint_execute s c w =
     (case get_parameter c ASSISTANCE_CONTEXT_PARAMETER_KEY_A_ID of
        Inl e \<Rightarrow> (Inl e, s, w)
      | Inr v \<Rightarrow>
          (case read_assistance_by_a_id w v of
             None \<Rightarrow> (Inl AttributeError, s, w)
           | Some a \<Rightarrow>
               (Inr (Some
                  \<lparr>assistance =
                     [a\<lparr>assistance_objects :=
                          [create_assistance_object_with_default_parameters (user_id a)
                             [\<lparr>key = ASSISTANCE_OBJECT_PARAMETER_KEY_MESSAGE,
                               val = PStr (t w LOCALE_IDENTIFIER_DE
                                 ''assistance.greeting.operation.toolcheck_screencast_hint'')\<rparr>,
                              \<lparr>key = ASSISTANCE_OBJECT_PARAMETER_KEY_URI,
                               val = PStr ''https://youtu.be/AJPM0PD0kx4''\<rparr>]]\<rparr>],
                   assistance_requests = [],
                   prepend_assistance_from_requests = False\<rparr>), s, w)))"

definition GreetingAssistanceInitiationOperation :: AssistanceOperation where
  "GreetingAssistanceInitiationOperation =
     \<lparr>self = default_fields\<lparr>target_status := Some COMPLETED\<rparr>,
      is_applicable_method = Some greeting_is_applicable,
      execute_method = greeting_execute\<rparr>"

definition ToolcheckScreencastHintOperation :: AssistanceOperation where
  "ToolcheckScreencastHintOperation =
     \<lparr>self = default_fields\<lparr>target_status := Some COMPLETED, subsequent_operations := Some [],
               assistance_in_progress_required := True, delete_scheduled_operations := True,
               send_state_update_to_related_users := False\<rparr>,
      is_applicable_method = None,
      execute_method = toolcheck_screencast_hint_execute\<rparr>"

text \<open>\<open>GreetingAssistance.__init__\<close>: two calls of \<open>_register_operation\<close> on a new
  process with key \<open>greeting\<close>.\<close>

definition GreetingAssistance :: AssistanceProcess where
  "GreetingAssistance =
     (new_process ''greeting'')
       \<lparr>registered_operations :=
          [ASSISTANCE_OPERATION_KEY_INITIATION \<mapsto> GreetingAssistanceInitiationOperation,
           TOOLCHECK_SCREENCAST_HINT_OPERATION_KEY \<mapsto> ToolcheckScreencastHintOperation]\<rparr>"

section \<open>The debug process (assistance/reactive\_assistance/debug.py)\<close>

definition debug_is_applicable ::
  "OperationFields \<Rightarrow> AssistanceContext \<Rightarrow> world \<Rightarrow> error + bool" where
  "debug_is_applicable s c w =
     (case get_parameter c ASSISTANCE_CONTEXT_PARAMETER_KEY_STATEMENT_ID of
        Inl e \<Rightarrow> Inr False
      | Inr v \<Rightarrow>
          (case read_statement_by_id w v of
             None \<Rightarrow> Inr False
           | Some statement \<Rightarrow>
               (case get_user_id statement of
                  Inl e \<Rightarrow> Inl e
                | Inr u \<Rightarrow> Inr (u \<noteq> []))))"

definition debug_initiation_execute ::
  "OperationFields \<Rightarrow> AssistanceContext \<Rightarrow> world
     \<Rightarrow> (error + AssistanceResult option) \<times> OperationFields \<times> world" where
  "debug_initiation_execute s c w =
     (case get_parameter c ASSISTANCE_CONTEXT_PARAMETER_KEY_STATEMENT_ID of
        Inl e \<Rightarrow> (Inl e, s, w)
      | Inr v \<Rightarrow>
          (case read_statement_by_id w v of
             None \<Rightarrow> (Inl AttributeError, s, w)
           | Some statement \<Rightarrow>
               (case get_user_id statement of
                  Inl e \<Rightarrow> (Inl e, s, w)
                | Inr u \<Rightarrow>
                    (Inr (Some
                       \<lparr>assistance =
                          [create_assistance_with_default_parameters (Some u)
                             [create_assistance_object_with_default_parameters (Some u)
                                [\<lparr>key = ASSISTANCE_OBJECT_PARAMETER_KEY_MESSAGE,
                                  val = PStr (''Hello '' @ u)\<rparr>]]],
                        assistance_requests = [],
                        prepend_assistance_from_requests = False\<rparr>), s, w))))"

definition debug_scheduled_execute ::
  "OperationFields \<Rightarrow> AssistanceContext \<Rightarrow> world
     \<Rightarrow> (error + AssistanceResult option) \<times> OperationFields \<times> world" where
  "debug_scheduled_execute s c w =
     (case get_parameter c ASSISTANCE_CONTEXT_PARAMETER_KEY_A_ID of
        Inl e \<Rightarrow> (Inl e, s, w)
      | Inr v \<Rightarrow>
          (case read_assistance_by_a_id w v of
             None \<Rightarrow> (Inl AttributeError, s, w)
           | Some a \<Rightarrow>
               (Inr (Some
                  \<lparr>assistance =
                     [a\<lparr>assistance_objects :=
                          [create_assistance_object_with_default_parameters (user_id a)
                             [\<lparr>key = ASSISTANCE_OBJECT_PARAMETER_KEY_MESSAGE,
                               val = PStr (''Hello again ''
                                           @ (case user_id a of None \<Rightarrow> ''None'' | Some u \<Rightarrow> u))\<rparr>]]\<rparr>],
                   assistance_requests = [],
                   prepend_assistance_from_requests = False\<rparr>), s, w)))"

definition DebugAssistanceInitiationOperation :: AssistanceOperation where
  "DebugAssistanceInitiationOperation =
     \<lparr>self = default_fields\<lparr>target_status := Some IN_PROGRESS\<rparr>,
      is_applicable_method = Some debug_is_applicable,
      execute_method = debug_initiation_execute\<rparr>"

definition DebugAssistanceScheduledOperation :: AssistanceOperation where
  "DebugAssistanceScheduledOperation =
     \<lparr>self = default_fields\<lparr>target_status := Some COMPLETED,
               assistance_in_progress_required := True\<rparr>,
      is_applicable_method = None,
      execute_method = debug_scheduled_execute\<rparr>"

definition debug_phases :: "AssistancePhase list" where
  "debug_phases =
     [\<lparr>ph_parameters = [\<lparr>key = ''title'', val = PStr ''Debug Start Phase''\<rparr>],
       steps =
         [\<lparr>ps_operation_key = ASSISTANCE_OPERATION_KEY_INITIATION,
           ps_parameters = [\<lparr>key = ''title'', val = PStr ''Debug Start Step''\<rparr>],
           operation = DebugAssistanceInitiationOperation, schedule = None\<rparr>,
          \<lparr>ps_operation_key = ''scheduled_step'',
           ps_parameters = [\<lparr>key = ''title'', val = PStr ''Scheduled Step''\<rparr>],
           operation = DebugAssistanceScheduledOperation, schedule = Some 20\<rparr>]\<rparr>]"

definition DebugAssistance :: "error + AssistanceProcess" where
  "DebugAssistance = register_phases (new_process ''debug'') debug_phases"

section \<open>Example stores and processes\<close>

text \<open>Concrete inputs at which the theorems below are instantiated.\<close>

definition empty_world :: world where
  "empty_world =
     \<lparr>assistance_collection = [], assistance_objects_collection = [],
      assistance_operations_collection = [], settings_collection = [],
      statements_collection = [], student_models_collection = [], experiences_collection = [],
      debug_enabled_by_env_var = False, DISABLED_ASSISTANCE_TYPE_KEYS = [],
      clock = 100000000, next_object_id = 0,
      uuid_source = (\<lambda>n. ''uuid-'' @ replicate n CHR ''i''), uuid_count = 0,
      t = (\<lambda>locale path. path), statement_schema_accepts = (\<lambda>statement. True),
      assistance_schema_accepts = (\<lambda>assistance. True), sent_statements = [],
      sent_assistance = [], error_log = []\<rparr>"

definition stored_assistance :: "string \<Rightarrow> AssistanceStateStatus \<Rightarrow> string list \<Rightarrow> Assistance" where
  "stored_assistance aid st ks =
     \<lparr>oid = Some 0, a_id = Some aid, user_id = Some ''u1'', type_key = Some ''demo'',
      timestamp = Some 1,
      assistance_state = Some \<lparr>status = Some st, phase = None, step = None\<rparr>,
      parameters = [], assistance_objects = [], next_operation_keys = ks\<rparr>"

definition world_with :: "Assistance list \<Rightarrow> world" where
  "world_with docs = empty_world\<lparr>assistance_collection := docs, next_object_id := 1\<rparr>"

text \<open>A store with one \<open>logged in\<close> statement of user \<open>u1\<close>, whose student model
  refers to the given experiences.\<close>

definition login_statement :: Statement where
  "login_statement =
     \<lparr>st_id = ''s1'', verb_id = Some LOGGED_IN, object_id = Some ''https://lms.example/'',
      actor_account_name = Some ''u1''\<rparr>"

definition login_world :: "nat list \<Rightarrow> world" where
  "login_world refs =
     empty_world\<lparr>statements_collection := [login_statement],
                 student_models_collection :=
                   [\<lparr>sm_user_id = ''u1'', online = True, experiences = refs\<rparr>],
                 experiences_collection :=
                   [\<lparr>ex_oid = 1, ex_statement_id = ''s0'', ex_user_id = ''u1''\<rparr>,
                    \<lparr>ex_oid = 2, ex_statement_id = ''s1'', ex_user_id = ''u1''\<rparr>],
                 next_object_id := 3\<rparr>"

definition login_context :: AssistanceContext where
  "login_context = new_context [(ASSISTANCE_CONTEXT_PARAMETER_KEY_STATEMENT_ID, PStr ''s1'')]"

text \<open>An operation in the manner of the message forwarding operations of the peer
  processes: it returns the instance it was called for, without new objects.\<close>

definition forward_execute ::
  "OperationFields \<Rightarrow> AssistanceContext \<Rightarrow> world
     \<Rightarrow> (error + AssistanceResult option) \<times> OperationFields \<times> world" where
  "forward_execute s c w =
     (case get_parameter c ASSISTANCE_CONTEXT_PARAMETER_KEY_A_ID of
        Inl e \<Rightarrow> (Inl e, s, w)
      | Inr v \<Rightarrow>
          (case read_assistance_by_a_id w v of
             None \<Rightarrow> (Inl AttributeError, s, w)
           | Some a \<Rightarrow>
               (Inr (Some \<lparr>assistance = [a\<lparr>assistance_objects := []\<rparr>],
                           assistance_requests = [],
                           prepend_assistance_from_requests = False\<rparr>), s, w)))"

definition forward_operation :: "bool \<Rightarrow> AssistanceOperation" where
  "forward_operation prevent =
     \<lparr>self = default_fields\<lparr>assistance_in_progress_required := True,
               prevent_progress := prevent\<rparr>,
      is_applicable_method = None, execute_method = forward_execute\<rparr>"

text \<open>A process with one operation that parks the instance (\<open>prevent_progress\<close>).\<close>

definition parked_process :: AssistanceProcess where
  "parked_process =
     (new_process ''demo'')\<lparr>registered_operations := [''forward'' \<mapsto> forward_operation True]\<rparr>"

text \<open>Two phases: an initiation, a step triggered in the same cycle, and, in the
  second phase, a step scheduled 20 seconds later.\<close>

definition example_phases :: "AssistancePhase list" where
  "example_phases =
     [\<lparr>ph_parameters = [],
       steps =
         [\<lparr>ps_operation_key = ASSISTANCE_OPERATION_KEY_INITIATION, ps_parameters = [],
           operation = DebugAssistanceInitiationOperation, schedule = None\<rparr>,
          \<lparr>ps_operation_key = ''confirm'', ps_parameters = [],
           operation = forward_operation False, schedule = None\<rparr>]\<rparr>,
      \<lparr>ph_parameters = [],
       steps =
         [\<lparr>ps_operation_key = ''scheduled_step'', ps_parameters = [],
           operation = DebugAssistanceScheduledOperation, schedule = Some 20\<rparr>]\<rparr>]"

definition example_process :: AssistanceProcess where
  "example_process =
     (case register_phases (new_process ''demo'') example_phases of
        Inr registered \<Rightarrow> registered
      | Inl e \<Rightarrow> new_process ''demo'')"

text \<open>An initiation that chains two requests, as the option handling of
  \<open>offer_assistance_options.py\<close> chains one request per instance it finds: one for the
  greeting initiation, one for the initiation of the example process.\<close>

definition chaining_execute ::
  "bool \<Rightarrow> OperationFields \<Rightarrow> AssistanceContext \<Rightarrow> world
     \<Rightarrow> (error + AssistanceResult option) \<times> OperationFields \<times> world" where
  "chaining_execute prepend s c w =
     (Inr (Some \<lparr>assistance = [create_assistance_with_default_parameters (Some ''u1'') []],
                 assistance_requests =
                   [\<lparr>rq_assistance_type_key = ''greeting'',
                     rq_assistance_operation_key = ASSISTANCE_OPERATION_KEY_INITIATION,
                     rq_ctx = c\<rparr>,
                    \<lparr>rq_assistance_type_key = ''demo'',
                     rq_assistance_operation_key = ASSISTANCE_OPERATION_KEY_INITIATION,
                     rq_ctx = c\<rparr>],
                 prepend_assistance_from_requests = prepend\<rparr>), s, w)"

definition chaining_process :: "bool \<Rightarrow> AssistanceProcess" where
  "chaining_process prepend =
     (new_process ''chain'')
       \<lparr>registered_operations :=
          [ASSISTANCE_OPERATION_KEY_INITIATION \<mapsto>
             \<lparr>self = default_fields, is_applicable_method = None,
              execute_method = chaining_execute prepend\<rparr>]\<rparr>"

definition example_types :: "bool \<Rightarrow> assistance_types" where
  "example_types prepend =
     [(''chain'', chaining_process prepend), (''greeting'', GreetingAssistance),
      (''demo'', example_process)]"



text \<open>The request for the chaining initiation.\<close>

definition chain_request :: AssistanceRequest where
  "chain_request =
     \<lparr>rq_assistance_type_key = ''chain'',
      rq_assistance_operation_key = ASSISTANCE_OPERATION_KEY_INITIATION,
      rq_ctx = login_context\<rparr>"








section \<open>Auxiliary notions for the statements\<close>

text \<open>The subsequent operations a step's operation was constructed with.\<close>

definition declared_subsequent_operations :: "AssistancePhaseStep \<Rightarrow> SubsequentAssistanceOperation list" where
  "declared_subsequent_operations stp =
     (case subsequent_operations (self (operation stp)) of None \<Rightarrow> [] | Some l \<Rightarrow> l)"

definition step_registered ::
  "AssistancePhase list \<Rightarrow> nat \<Rightarrow> nat \<Rightarrow> AssistancePhaseStep \<Rightarrow> AssistanceOperation \<Rightarrow> bool" where
  "step_registered phases phase_index step_index stp opn =
     (((phase_index \<noteq> 0 \<or> step_index \<noteq> 0) \<longrightarrow> assistance_in_progress_required (self opn))
      \<and> (if is_last_step phases phase_index step_index
          then subsequent_operations (self opn) = subsequent_operations (self (operation stp))
          else (\<exists>next_step. next_step_of phases phase_index step_index = Inr next_step
                  \<and> subsequent_operations (self opn)
                      = Some (declared_subsequent_operations stp
                              @ [subsequent_operation_for next_step]))))"

abbreviation keys_of :: "AssistancePhaseStep list \<Rightarrow> string set" where
  "keys_of l \<equiv> ps_operation_key ` set l"





text \<open>
  ``Resolving the chained requests'', in the words of claim C7: the requests are
  resolved one after the other, each in the store the one before it left, and each of
  them has to yield a result. The value lists, request by request, the result and the
  store after it.
\<close>

fun resolve_in_order ::
  "(AssistanceRequest \<Rightarrow> string list \<Rightarrow> world \<Rightarrow> (error + AssistanceResult option) \<times> world)
     \<Rightarrow> AssistanceRequest list \<Rightarrow> string list \<Rightarrow> world
     \<Rightarrow> (AssistanceResult \<times> world) list option" where
  "resolve_in_order h [] supported w = Some []"
| "resolve_in_order h (rq # rest) supported w =
     (case h rq supported w of
        (Inl e, w1) \<Rightarrow> None
      | (Inr None, w1) \<Rightarrow> None
      | (Inr (Some r), w1) \<Rightarrow>
          (case resolve_in_order h rest supported w1 of
             None \<Rightarrow> None
           | Some following \<Rightarrow> Some ((r, w1) # following)))"





section \<open>Theorems\<close>

subsection \<open>Unfolding rules for evaluation at concrete inputs\<close>

lemmas engine_defs =
  check_applicability_and_execute_operation_def execute_def self_before_execute_def
  reset_bookkeeping_def subsequent_triggered_operations_def subsequent_scheduled_operations_def
  filter_subsequent_operations_by_type_def process_assistance_result_def
  assistance_to_process_or_existing_def determine_state_update_def
  compute_state_update_assistance_objects_def ids_of_users_to_update_def set_user_states_def
  assistance_state_status_update_def assistance_state_phase_update_def
  assistance_state_step_update_def state_update_value_def
  set_assistance_properties_def set_type_of_new_assistance_objects_def persist_assistance_def
  schedule_operation_def is_operation_registered_def debug_scheduled_assistance_time_factor_def
  debug_def read_setting_by_key_def create_assistance_def create_assistance_objects_def
  create_assistance_operation_for_scheduled_invocation_def uuid4_def current_datetime_def
  timedelta_def datetime_plus_def bson_datetime_def round_half_even_def
  bson_document_error_def bson_key_error_def
  object_ref_def load_assistance_objects_def read_assistance_by_a_id_def find_one_assistance_def
  update_assistance_adding_assistance_objects_def existing_status_def replace_one_assistance_def
  update_assistance_by_a_id_reset_next_operation_keys_def delete_assistance_operations_by_a_id_def
  get_parameter_def new_context_def is_applicable_def default_fields_def
  create_assistance_with_default_parameters_def create_assistance_object_with_default_parameters_def
  get_first_assistance_parameter_by_key_def replace_or_add_assistance_parameters_by_key_def
  Let_def

lemmas key_defs =
  ASSISTANCE_CONTEXT_PARAMETER_KEY_A_ID_def ASSISTANCE_CONTEXT_PARAMETER_KEY_ASSISTANCE_OBJECTS_def
  ASSISTANCE_CONTEXT_PARAMETER_KEY_STATEMENT_ID_def ASSISTANCE_OPERATION_KEY_INITIATION_def
  ASSISTANCE_OBJECT_PARAMETER_KEY_MESSAGE_def ASSISTANCE_OBJECT_PARAMETER_KEY_STATE_UPDATE_def
  ASSISTANCE_OBJECT_PARAMETER_KEY_URI_def ASSISTANCE_PARAMETER_KEY_RELATED_USER_IDS_def
  ASSISTANCE_PARAMETER_KEY_USER_ID_TO_STATE_def TOOLCHECK_SCREENCAST_HINT_OPERATION_KEY_def
  LOGGED_IN_def LOCALE_IDENTIFIER_DE_def SETTING_KEY_DEBUG_def
  SETTING_KEY_DEBUG_SCHEDULED_ASSISTANCE_TIME_FACTOR_def SETTING_KEY_SCHEDULED_ASSISTANCE_DISABLED_def

lemmas process_defs =
  GreetingAssistance_def GreetingAssistanceInitiationOperation_def ToolcheckScreencastHintOperation_def
  greeting_is_applicable_def greeting_execute_def toolcheck_screencast_hint_execute_def
  read_statement_by_id_def get_user_id_def read_student_model_by_user_id_def new_process_def
  DebugAssistanceInitiationOperation_def DebugAssistanceScheduledOperation_def
  debug_is_applicable_def debug_initiation_execute_def debug_scheduled_execute_def
  forward_execute_def forward_operation_def parked_process_def chaining_execute_def
  chaining_process_def

lemmas registration_defs =
  register_phases_def register_step_def is_last_step_def next_step_of_def
  subsequent_operation_for_def

lemmas world_defs =
  empty_world_def stored_assistance_def world_with_def login_statement_def login_world_def
  login_context_def


lemma example_process_eq:
  "example_process =
     (new_process ''demo'')
       \<lparr>registered_operations :=
          [ASSISTANCE_OPERATION_KEY_INITIATION \<mapsto>
             DebugAssistanceInitiationOperation
               \<lparr>self := (self DebugAssistanceInitiationOperation)
                  \<lparr>subsequent_operations :=
                     Some [\<lparr>so_type = TRIGGERED_OPERATION, operation_key = ''confirm'',
                            time_to_invocation_in_s = None\<rparr>]\<rparr>\<rparr>,
           ''confirm'' \<mapsto>
             (forward_operation False)
               \<lparr>self := (self (forward_operation False))
                  \<lparr>subsequent_operations :=
                     Some [\<lparr>so_type = SCHEDULED_OPERATION, operation_key = ''scheduled_step'',
                            time_to_invocation_in_s = Some 20\<rparr>]\<rparr>\<rparr>,
           ''scheduled_step'' \<mapsto> DebugAssistanceScheduledOperation],
        registered_operation_keys_to_phase_number :=
          [ASSISTANCE_OPERATION_KEY_INITIATION \<mapsto> 1, ''confirm'' \<mapsto> 1, ''scheduled_step'' \<mapsto> 2],
        registered_operation_keys_to_step_number :=
          [ASSISTANCE_OPERATION_KEY_INITIATION \<mapsto> 1, ''confirm'' \<mapsto> 2, ''scheduled_step'' \<mapsto> 3],
        registered_phases := example_phases\<rparr>"
  by (simp add: example_process_def example_phases_def registration_defs process_defs key_defs
        default_fields_def Let_def fun_upd_twist eval_nat_numeral)

lemmas chain_defs =
  chain_request_def example_types_def example_process_eq engine_defs key_defs process_defs
  world_defs




subsection \<open>Parameter replacement and the store guards\<close>

text \<open>
  Claim C9. Called with \<open>parameters = None\<close> the function returns the empty list, so the
  replacement is dropped. Called with a list it returns a list whose last element is the
  replacement and whose front is the input list without the parameters that share the
  replacement's key, in their original order.
\<close>

theorem replace_or_add_none_and_list:
  "replace_or_add_assistance_parameters_by_key r None = []
   \<and> last (replace_or_add_assistance_parameters_by_key r (Some ps)) = r
   \<and> butlast (replace_or_add_assistance_parameters_by_key r (Some ps))
       = filter (\<lambda>p. key p \<noteq> key r) ps
   \<and> length (filter (\<lambda>p. key p = key r)
        (butlast (replace_or_add_assistance_parameters_by_key r (Some ps)))) = 0"
  by (simp add: replace_or_add_assistance_parameters_by_key_def)

lemma create_assistance_objects_loop_empty:
  "create_assistance_objects_loop objs aid w = (ds, w1) \<Longrightarrow> (ds = []) = (objs = [])"
  by (cases objs) (auto simp: Let_def split: prod.splits)

lemma create_assistance_objects_Inl:
  assumes "create_assistance_objects objs aid w = (Inl e, w')"
  shows "w' = w \<and> e = TypeError \<and> objs = []"
proof -
  obtain ds w1 where l: "create_assistance_objects_loop objs aid w = (ds, w1)"
    by (cases "create_assistance_objects_loop objs aid w")
  with assms have "ds = []" and e: "e = TypeError" and w: "w' = w1"
    by (auto simp: create_assistance_objects_def split: if_splits)
  with create_assistance_objects_loop_empty [OF l] have "objs = []" by simp
  with l w e show ?thesis by simp
qed

text \<open>
  Claim C10. A failing call of \<open>update_assistance_by_a_id_adding_assistance_objects\<close>
  leaves the store as it was: an unknown id gives \<open>AssistanceNotExistsException\<close>, a
  terminal instance gives \<open>CompletedAssistanceModifyException\<close>, and whatever exception
  the call ends in, the world it returns is the world it was given, so no object
  document was created and the assistance document was not replaced.
\<close>

theorem update_by_a_id_failure_store_unchanged:
  "(find_one_assistance w aid = None \<longrightarrow>
      update_assistance_by_a_id_adding_assistance_objects aid objs w
        = (Inl AssistanceNotExistsException, w))
   \<and> (\<forall>existing st. find_one_assistance w aid = Some existing
         \<and> assistance_state existing = Some st
         \<and> (status st = Some COMPLETED \<or> status st = Some ABORTED) \<longrightarrow>
      update_assistance_by_a_id_adding_assistance_objects aid objs w
        = (Inl CompletedAssistanceModifyException, w))
   \<and> (\<forall>e w'. update_assistance_by_a_id_adding_assistance_objects aid objs w = (Inl e, w')
         \<longrightarrow> w' = w)"
  by (auto simp: update_assistance_by_a_id_adding_assistance_objects_def Let_def existing_status_def
           split: option.splits sum.splits if_splits prod.splits
           dest: create_assistance_objects_Inl)

theorem update_by_a_id_failure_store_unchanged_witness:
  "find_one_assistance (world_with []) (PStr ''a1'') = None
   \<and> update_assistance_by_a_id_adding_assistance_objects (PStr ''a1'') [] (world_with [])
       = (Inl AssistanceNotExistsException, world_with [])
   \<and> find_one_assistance (world_with [stored_assistance ''a1'' ABORTED []]) (PStr ''a1'')
       = Some (stored_assistance ''a1'' ABORTED [])
   \<and> update_assistance_by_a_id_adding_assistance_objects (PStr ''a1'') []
        (world_with [stored_assistance ''a1'' ABORTED []])
       = (Inl CompletedAssistanceModifyException, world_with [stored_assistance ''a1'' ABORTED []])"
proof -
  have h1: "find_one_assistance (world_with []) (PStr ''a1'') = None"
    by (simp add: find_one_assistance_def world_with_def empty_world_def)
  have h2: "find_one_assistance (world_with [stored_assistance ''a1'' ABORTED []]) (PStr ''a1'')
       = Some (stored_assistance ''a1'' ABORTED [])"
    by (simp add: find_one_assistance_def world_with_def empty_world_def stored_assistance_def)
  have h3: "assistance_state (stored_assistance ''a1'' ABORTED [])
       = Some \<lparr>status = Some ABORTED, phase = None, step = None\<rparr>"
    by (simp add: stored_assistance_def)
  from update_by_a_id_failure_store_unchanged [of "world_with []" "PStr ''a1''" "[]"]
       update_by_a_id_failure_store_unchanged
         [of "world_with [stored_assistance ''a1'' ABORTED []]" "PStr ''a1''" "[]"]
       h1 h2 h3
  show ?thesis by auto
qed

text \<open>
  Claim C2. When the instance addressed by \<open>a_id\<close> has status \<open>COMPLETED\<close> or
  \<open>ABORTED\<close>, appending response objects fails with
  \<open>CompletedAssistanceModifyException\<close>, in \<open>update_assistance\<close> and in the store
  function it calls, and the store is returned unchanged: nothing is appended.
\<close>

theorem update_assistance_terminal_instance_fails:
  assumes "find_one_assistance w aid = Some existing"
    and "assistance_state existing = Some st"
    and "status st = Some COMPLETED \<or> status st = Some ABORTED"
  shows "update_assistance n TYPES aid objs w = (Inl CompletedAssistanceModifyException, w)
     \<and> update_assistance_by_a_id_adding_assistance_objects aid objs w
         = (Inl CompletedAssistanceModifyException, w)"
  using assms
  by (auto simp: update_assistance_def update_assistance_by_a_id_adding_assistance_objects_def
        existing_status_def Let_def)

theorem update_assistance_terminal_instance_fails_witness:
  "update_assistance 10 [] (PStr ''a1'')
      [create_assistance_object_with_default_parameters (Some ''u1'') []]
      (world_with [stored_assistance ''a1'' COMPLETED [''next'']])
     = (Inl CompletedAssistanceModifyException,
        world_with [stored_assistance ''a1'' COMPLETED [''next'']])"
proof -
  have h2: "find_one_assistance (world_with [stored_assistance ''a1'' COMPLETED [''next'']]) (PStr ''a1'')
       = Some (stored_assistance ''a1'' COMPLETED [''next''])"
    by (simp add: find_one_assistance_def world_with_def empty_world_def stored_assistance_def)
  have h3: "assistance_state (stored_assistance ''a1'' COMPLETED [''next''])
       = Some \<lparr>status = Some COMPLETED, phase = None, step = None\<rparr>"
    by (simp add: stored_assistance_def)
  from update_assistance_terminal_instance_fails [OF h2 h3] show ?thesis by simp
qed

text \<open>
  Claim C1, evaluated where it fails. The context carries an \<open>a_id\<close> that resolves to an
  instance with status \<open>COMPLETED\<close>; the operation requires an instance in progress;
  \<open>is_applicable\<close> returns \<open>True\<close>.
\<close>

theorem is_applicable_ignores_terminal_instance:
  "read_assistance_by_a_id (world_with [stored_assistance ''a1'' COMPLETED []]) (PStr ''a1'')
     = Some (stored_assistance ''a1'' COMPLETED [])
   \<and> is_applicable (default_fields\<lparr>assistance_in_progress_required := True\<rparr>)
        (new_context [(ASSISTANCE_CONTEXT_PARAMETER_KEY_A_ID, PStr ''a1'')])
        (world_with [stored_assistance ''a1'' COMPLETED []]) = True"
  by (simp add: is_applicable_def default_fields_def new_context_def get_parameter_def
      read_assistance_by_a_id_def find_one_assistance_def world_with_def empty_world_def
      stored_assistance_def load_assistance_objects_def ASSISTANCE_CONTEXT_PARAMETER_KEY_A_ID_def)

text \<open>What the base method does decide: with an instance in progress required it is
  applicable exactly when the context has an \<open>a_id\<close> entry.\<close>

lemma is_applicable_iff:
  "is_applicable s c w =
     (assistance_in_progress_required s \<longrightarrow>
        map_of (parameter_dict c) ASSISTANCE_CONTEXT_PARAMETER_KEY_A_ID \<noteq> None)"
  by (auto simp: is_applicable_def get_parameter_def split: option.splits sum.splits)

subsection \<open>Phase registration\<close>

lemma register_step_Inr:
  assumes "register_step phases pidx sidx stp reg = Inr reg'"
  shows "ps_operation_key stp \<notin> dom (operations_to_register reg)"
    and "\<exists>opn. operations_to_register reg' = (operations_to_register reg)(ps_operation_key stp \<mapsto> opn)
               \<and> step_registered phases pidx sidx stp opn"
  using assms
  by (auto simp: register_step_def Let_def step_registered_def declared_subsequent_operations_def
           split: if_splits sum.splits)

lemma register_steps_Inr:
  assumes "register_steps phases pidx sidx rest reg = Inr reg'"
  shows "distinct (map ps_operation_key rest)
       \<and> keys_of rest \<inter> dom (operations_to_register reg) = {}
       \<and> dom (operations_to_register reg') = dom (operations_to_register reg) \<union> keys_of rest
       \<and> (\<forall>k. k \<notin> keys_of rest \<longrightarrow> operations_to_register reg' k = operations_to_register reg k)
       \<and> (\<forall>j<length rest. \<exists>opn.
             operations_to_register reg' (ps_operation_key (rest ! j)) = Some opn
             \<and> step_registered phases pidx (sidx + j) (rest ! j) opn)"
  using assms
proof (induction rest arbitrary: sidx reg)
  case Nil
  then show ?case by simp
next
  case (Cons stp rest)
  from Cons.prems obtain reg1 where
    one: "register_step phases pidx sidx stp reg = Inr reg1"
    and more: "register_steps phases pidx (Suc sidx) rest reg1 = Inr reg'"
    by (auto split: sum.splits)
  from register_step_Inr [OF one] obtain opn where
    fresh: "ps_operation_key stp \<notin> dom (operations_to_register reg)"
    and upd: "operations_to_register reg1 = (operations_to_register reg)(ps_operation_key stp \<mapsto> opn)"
    and good: "step_registered phases pidx sidx stp opn"
    by blast
  note IH = Cons.IH [OF more]
  have notin: "ps_operation_key stp \<notin> keys_of rest"
    using IH upd by auto
  have here: "operations_to_register reg' (ps_operation_key stp) = Some opn"
    using IH notin upd by simp
  show ?case
  proof (intro conjI allI impI)
    show "distinct (map ps_operation_key (stp # rest))"
      using IH notin by simp
    show "keys_of (stp # rest) \<inter> dom (operations_to_register reg) = {}"
      using IH fresh upd by auto
    show "dom (operations_to_register reg') = dom (operations_to_register reg) \<union> keys_of (stp # rest)"
      using IH upd by auto
    show "operations_to_register reg' k = operations_to_register reg k"
      if "k \<notin> keys_of (stp # rest)" for k
      using IH upd that by auto
    show "\<exists>opn. operations_to_register reg' (ps_operation_key ((stp # rest) ! j)) = Some opn
             \<and> step_registered phases pidx (sidx + j) ((stp # rest) ! j) opn"
      if "j < length (stp # rest)" for j
    proof (cases j)
      case 0
      with here good show ?thesis by simp
    next
      case (Suc i)
      with that IH show ?thesis by simp
    qed
  qed
qed

lemma register_phases_loop_Inr:
  assumes "register_phases_loop phases pidx rest reg = Inr reg'"
  shows "distinct (map ps_operation_key (concat (map steps rest)))
       \<and> keys_of (concat (map steps rest)) \<inter> dom (operations_to_register reg) = {}
       \<and> dom (operations_to_register reg')
           = dom (operations_to_register reg) \<union> keys_of (concat (map steps rest))
       \<and> (\<forall>k. k \<notin> keys_of (concat (map steps rest))
              \<longrightarrow> operations_to_register reg' k = operations_to_register reg k)
       \<and> (\<forall>q<length rest. \<forall>j<length (steps (rest ! q)). \<exists>opn.
             operations_to_register reg' (ps_operation_key (steps (rest ! q) ! j)) = Some opn
             \<and> step_registered phases (pidx + q) j (steps (rest ! q) ! j) opn)"
  using assms
proof (induction rest arbitrary: pidx reg)
  case Nil
  then show ?case by simp
next
  case (Cons ph rest)
  from Cons.prems obtain reg1 where
    one: "register_steps phases pidx 0 (steps ph) reg = Inr reg1"
    and more: "register_phases_loop phases (Suc pidx) rest reg1 = Inr reg'"
    by (auto split: sum.splits)
  define KP where "KP = keys_of (steps ph)"
  define KR where "KR = keys_of (concat (map steps rest))"
  have all: "keys_of (concat (map steps (ph # rest))) = KP \<union> KR"
    by (simp add: KP_def KR_def image_Un)
  from register_steps_Inr [OF one] have
    S1: "distinct (map ps_operation_key (steps ph))"
    and S2: "KP \<inter> dom (operations_to_register reg) = {}"
    and S3: "dom (operations_to_register reg1) = dom (operations_to_register reg) \<union> KP"
    and S4: "\<And>k. k \<notin> KP \<Longrightarrow> operations_to_register reg1 k = operations_to_register reg k"
    and S5: "\<And>j. j < length (steps ph) \<Longrightarrow> \<exists>opn.
             operations_to_register reg1 (ps_operation_key (steps ph ! j)) = Some opn
             \<and> step_registered phases pidx j (steps ph ! j) opn"
    unfolding KP_def by simp_all
  from Cons.IH [OF more] have
    I1: "distinct (map ps_operation_key (concat (map steps rest)))"
    and I2: "KR \<inter> dom (operations_to_register reg1) = {}"
    and I3: "dom (operations_to_register reg') = dom (operations_to_register reg1) \<union> KR"
    and I4: "\<And>k. k \<notin> KR \<Longrightarrow> operations_to_register reg' k = operations_to_register reg1 k"
    and I5: "\<And>q j. q < length rest \<Longrightarrow> j < length (steps (rest ! q)) \<Longrightarrow> \<exists>opn.
             operations_to_register reg' (ps_operation_key (steps (rest ! q) ! j)) = Some opn
             \<and> step_registered phases (Suc pidx + q) j (steps (rest ! q) ! j) opn"
    unfolding KR_def by simp_all
  have disj: "KP \<inter> KR = {}"
    using S3 I2 by blast
  have c1: "distinct (map ps_operation_key (concat (map steps (ph # rest))))"
    using S1 I1 disj by (simp add: KP_def KR_def)
  have c2: "keys_of (concat (map steps (ph # rest))) \<inter> dom (operations_to_register reg) = {}"
    unfolding all using S2 S3 I2 by blast
  have c3: "dom (operations_to_register reg')
           = dom (operations_to_register reg) \<union> keys_of (concat (map steps (ph # rest)))"
    unfolding all using S3 I3 by blast
  have c4: "operations_to_register reg' k = operations_to_register reg k"
    if "k \<notin> keys_of (concat (map steps (ph # rest)))" for k
    using that S4 [of k] I4 [of k] unfolding all by simp
  have c5: "\<exists>opn. operations_to_register reg' (ps_operation_key (steps ((ph # rest) ! q) ! j)) = Some opn
             \<and> step_registered phases (pidx + q) j (steps ((ph # rest) ! q) ! j) opn"
    if "q < length (ph # rest)" and "j < length (steps ((ph # rest) ! q))" for q j
  proof (cases q)
    case 0
    with that have j: "j < length (steps ph)" by simp
    then have "ps_operation_key (steps ph ! j) \<in> KP" by (simp add: KP_def)
    with disj have "ps_operation_key (steps ph ! j) \<notin> KR" by blast
    from I4 [OF this] S5 [OF j] 0 show ?thesis by simp
  next
    case (Suc i)
    with that I5 [of i j] show ?thesis by simp
  qed
  show ?case
  proof (intro conjI)
    show "distinct (map ps_operation_key (concat (map steps (ph # rest))))" by (rule c1)
    show "keys_of (concat (map steps (ph # rest))) \<inter> dom (operations_to_register reg) = {}"
      by (rule c2)
    show "dom (operations_to_register reg')
           = dom (operations_to_register reg) \<union> keys_of (concat (map steps (ph # rest)))"
      by (rule c3)
    show "\<forall>k. k \<notin> keys_of (concat (map steps (ph # rest)))
              \<longrightarrow> operations_to_register reg' k = operations_to_register reg k"
      using c4 by blast
    show "\<forall>q<length (ph # rest). \<forall>j<length (steps ((ph # rest) ! q)). \<exists>opn.
             operations_to_register reg' (ps_operation_key (steps ((ph # rest) ! q) ! j)) = Some opn
             \<and> step_registered phases (pidx + q) j (steps ((ph # rest) ! q) ! j) opn"
      using c5 by blast
  qed
qed

lemma next_step_of_total:
  assumes "\<forall>ph\<in>set phases. steps ph \<noteq> []"
    and "pidx < length phases" and "sidx < length (steps (phases ! pidx))"
    and "\<not> is_last_step phases pidx sidx"
  shows "\<exists>next_step. next_step_of phases pidx sidx = Inr next_step"
proof (cases "Suc sidx < length (steps (phases ! pidx))")
  case True
  then show ?thesis by (simp add: next_step_of_def)
next
  case False
  with assms(3) have last: "Suc sidx = length (steps (phases ! pidx))" by simp
  with assms(2,4) have more: "Suc pidx < length phases"
    by (auto simp: is_last_step_def)
  then have "phases ! Suc pidx \<in> set phases" by simp
  with assms(1) have "steps (phases ! Suc pidx) \<noteq> []" by blast
  with last more show ?thesis
    by (auto simp: next_step_of_def split: list.splits)
qed

lemma register_step_total:
  assumes "\<forall>ph\<in>set phases. steps ph \<noteq> []"
    and "pidx < length phases" and "sidx < length (steps (phases ! pidx))"
    and "ps_operation_key stp \<notin> dom (operations_to_register reg)"
  shows "\<exists>reg1. register_step phases pidx sidx stp reg = Inr reg1"
proof (cases "is_last_step phases pidx sidx")
  case True
  with assms(4) show ?thesis by (simp add: register_step_def Let_def)
next
  case False
  from next_step_of_total [OF assms(1-3) False] obtain nx where
    "next_step_of phases pidx sidx = Inr nx" by blast
  with False assms(4) show ?thesis by (simp add: register_step_def Let_def)
qed

lemma register_steps_total:
  assumes "\<forall>ph\<in>set phases. steps ph \<noteq> []"
    and "pidx < length phases"
    and "steps (phases ! pidx) = before @ rest" and "sidx = length before"
    and "distinct (map ps_operation_key rest)"
    and "keys_of rest \<inter> dom (operations_to_register reg) = {}"
  shows "\<exists>reg'. register_steps phases pidx sidx rest reg = Inr reg'"
  using assms(3-6)
proof (induction rest arbitrary: before sidx reg)
  case Nil
  then show ?case by simp
next
  case (Cons stp rest)
  have "sidx < length (steps (phases ! pidx))"
    using Cons.prems(1,2) by simp
  moreover have "ps_operation_key stp \<notin> dom (operations_to_register reg)"
    using Cons.prems(4) by auto
  ultimately obtain reg1 where one: "register_step phases pidx sidx stp reg = Inr reg1"
    using register_step_total [OF assms(1,2)] by blast
  from register_step_Inr(2) [OF one] obtain opn where
    upd: "operations_to_register reg1 = (operations_to_register reg)(ps_operation_key stp \<mapsto> opn)"
    by blast
  have "steps (phases ! pidx) = (before @ [stp]) @ rest"
    using Cons.prems(1) by simp
  moreover have "Suc sidx = length (before @ [stp])"
    using Cons.prems(2) by simp
  moreover have "distinct (map ps_operation_key rest)"
    using Cons.prems(3) by simp
  moreover have "keys_of rest \<inter> dom (operations_to_register reg1) = {}"
    using Cons.prems(3,4) upd by auto
  ultimately obtain reg' where "register_steps phases pidx (Suc sidx) rest reg1 = Inr reg'"
    using Cons.IH by blast
  with one show ?case by simp
qed

lemma register_phases_loop_total:
  assumes "\<forall>ph\<in>set phases. steps ph \<noteq> []"
    and "phases = before @ rest" and "pidx = length before"
    and "distinct (map ps_operation_key (concat (map steps rest)))"
    and "keys_of (concat (map steps rest)) \<inter> dom (operations_to_register reg) = {}"
  shows "\<exists>reg'. register_phases_loop phases pidx rest reg = Inr reg'"
  using assms(2-5)
proof (induction rest arbitrary: before pidx reg)
  case Nil
  then show ?case by simp
next
  case (Cons ph rest)
  have here: "phases ! pidx = ph" and inb: "pidx < length phases"
    using Cons.prems(1,2) by simp_all
  have d1: "distinct (map ps_operation_key (steps ph))"
    and d2: "distinct (map ps_operation_key (concat (map steps rest)))"
    and d3: "keys_of (steps ph) \<inter> keys_of (concat (map steps rest)) = {}"
    using Cons.prems(3) by (simp_all add: image_Un)
  have e1: "keys_of (steps ph) \<inter> dom (operations_to_register reg) = {}"
    and e2: "keys_of (concat (map steps rest)) \<inter> dom (operations_to_register reg) = {}"
    using Cons.prems(4) by (auto simp: image_Un)
  have "steps (phases ! pidx) = [] @ steps ph" using here by simp
  from register_steps_total [OF assms(1) inb this _ d1 e1]
  obtain reg1 where one: "register_steps phases pidx 0 (steps ph) reg = Inr reg1"
    by auto
  from register_steps_Inr [OF one] have
    dom1: "dom (operations_to_register reg1)
             = dom (operations_to_register reg) \<union> keys_of (steps ph)"
    by blast
  have "phases = (before @ [ph]) @ rest" using Cons.prems(1) by simp
  moreover have "Suc pidx = length (before @ [ph])" using Cons.prems(2) by simp
  moreover have "keys_of (concat (map steps rest)) \<inter> dom (operations_to_register reg1) = {}"
    using dom1 d3 e2 by blast
  ultimately obtain reg' where "register_phases_loop phases (Suc pidx) rest reg1 = Inr reg'"
    using Cons.IH d2 by blast
  with one show ?case by simp
qed

lemma subsequent_operation_for_eq:
  "subsequent_operation_for nx =
     \<lparr>so_type = (if schedule nx = None then TRIGGERED_OPERATION else SCHEDULED_OPERATION),
      operation_key = ps_operation_key nx, time_to_invocation_in_s = schedule nx\<rparr>"
  by (simp add: subsequent_operation_for_def split: option.splits)

lemma step_registered_next_in_phase:
  assumes "step_registered phases pidx sidx stp opn"
    and "Suc sidx < length (steps (phases ! pidx))"
  shows "subsequent_operations (self opn)
           = Some (declared_subsequent_operations stp
                   @ [subsequent_operation_for (steps (phases ! pidx) ! Suc sidx)])"
  using assms
  by (auto simp: step_registered_def is_last_step_def next_step_of_def split: if_splits)

lemma step_registered_next_phase:
  assumes "step_registered phases pidx sidx stp opn"
    and "Suc sidx = length (steps (phases ! pidx))" and "Suc pidx < length phases"
  shows "steps (phases ! Suc pidx) \<noteq> []
       \<and> subsequent_operations (self opn)
           = Some (declared_subsequent_operations stp
                   @ [subsequent_operation_for (hd (steps (phases ! Suc pidx)))])"
  using assms
  by (auto simp: step_registered_def is_last_step_def next_step_of_def
           split: if_splits list.splits)

text \<open>
  Claim C5. Whenever \<open>_register_phases\<close> produces a registry for a list of phases, every
  step is registered under its key; the operation of every step other than step 1 of
  phase 1 requires an instance in progress; the operation of every step that has a
  successor (the next step of its phase, or the first step of the next phase) carries
  the subsequent operations it was constructed with followed by one link to that
  successor, of type \<open>TRIGGERED_OPERATION\<close> without delay when the successor declares no
  schedule and of type \<open>SCHEDULED_OPERATION\<close> with the successor's delay otherwise. A
  list with a duplicate operation key produces no registry but an error, and a list of
  non-empty phases with distinct keys always produces a registry.
\<close>

theorem register_phases_links_steps:
  "(\<forall>registered. register_phases process phases = Inr registered \<longrightarrow>
      (\<forall>pidx<length phases. \<forall>sidx<length (steps (phases ! pidx)).
         \<exists>opn. registered_operations registered
                  (ps_operation_key (steps (phases ! pidx) ! sidx)) = Some opn
           \<and> ((pidx \<noteq> 0 \<or> sidx \<noteq> 0) \<longrightarrow> assistance_in_progress_required (self opn))
           \<and> (Suc sidx < length (steps (phases ! pidx)) \<longrightarrow>
                subsequent_operations (self opn)
                  = Some ((case subsequent_operations
                                  (self (operation (steps (phases ! pidx) ! sidx))) of
                             None \<Rightarrow> [] | Some l \<Rightarrow> l)
                          @ [\<lparr>so_type =
                                (if schedule (steps (phases ! pidx) ! Suc sidx) = None
                                 then TRIGGERED_OPERATION else SCHEDULED_OPERATION),
                              operation_key = ps_operation_key (steps (phases ! pidx) ! Suc sidx),
                              time_to_invocation_in_s =
                                schedule (steps (phases ! pidx) ! Suc sidx)\<rparr>]))
           \<and> (Suc sidx = length (steps (phases ! pidx)) \<and> Suc pidx < length phases \<longrightarrow>
                steps (phases ! Suc pidx) \<noteq> []
                \<and> subsequent_operations (self opn)
                  = Some ((case subsequent_operations
                                  (self (operation (steps (phases ! pidx) ! sidx))) of
                             None \<Rightarrow> [] | Some l \<Rightarrow> l)
                          @ [\<lparr>so_type =
                                (if schedule (hd (steps (phases ! Suc pidx))) = None
                                 then TRIGGERED_OPERATION else SCHEDULED_OPERATION),
                              operation_key = ps_operation_key (hd (steps (phases ! Suc pidx))),
                              time_to_invocation_in_s =
                                schedule (hd (steps (phases ! Suc pidx)))\<rparr>]))))
   \<and> (\<not> distinct (map ps_operation_key (concat (map steps phases)))
        \<longrightarrow> (\<exists>e. register_phases process phases = Inl e))
   \<and> ((\<forall>ph\<in>set phases. steps ph \<noteq> [])
        \<and> distinct (map ps_operation_key (concat (map steps phases)))
        \<longrightarrow> (\<exists>registered. register_phases process phases = Inr registered))"
proof (intro conjI allI impI)
  fix registered pidx sidx
  assume ok: "register_phases process phases = Inr registered"
    and p: "pidx < length phases" and s: "sidx < length (steps (phases ! pidx))"
  let ?reg0 = "\<lparr>operations_to_register = Map.empty,
                keys_of_operations_to_register_to_phase_number = Map.empty,
                keys_of_operations_to_register_to_step_number = Map.empty,
                step_number = 0\<rparr>"
  let ?stp = "steps (phases ! pidx) ! sidx"
  from ok obtain reg where
    loop: "register_phases_loop phases 0 phases ?reg0 = Inr reg"
    and regd: "registered_operations registered
                 = registered_operations process ++ operations_to_register reg"
    by (auto simp: register_phases_def split: sum.splits)
  have "\<forall>q<length phases. \<forall>j<length (steps (phases ! q)). \<exists>opn.
             operations_to_register reg (ps_operation_key (steps (phases ! q) ! j)) = Some opn
             \<and> step_registered phases q j (steps (phases ! q) ! j) opn"
    using register_phases_loop_Inr [OF loop] by simp
  with p s obtain opn where
    entry: "operations_to_register reg (ps_operation_key ?stp) = Some opn"
    and good: "step_registered phases pidx sidx ?stp opn"
    by blast
  have look: "registered_operations registered (ps_operation_key ?stp) = Some opn"
    using regd entry by (simp add: map_add_Some_iff)
  have a: "(pidx \<noteq> 0 \<or> sidx \<noteq> 0) \<longrightarrow> assistance_in_progress_required (self opn)"
    using good by (simp add: step_registered_def)
  have b: "Suc sidx < length (steps (phases ! pidx)) \<longrightarrow>
      subsequent_operations (self opn)
        = Some (declared_subsequent_operations ?stp
                @ [subsequent_operation_for (steps (phases ! pidx) ! Suc sidx)])"
    using step_registered_next_in_phase [OF good] by blast
  have c: "Suc sidx = length (steps (phases ! pidx)) \<and> Suc pidx < length phases \<longrightarrow>
      steps (phases ! Suc pidx) \<noteq> []
      \<and> subsequent_operations (self opn)
        = Some (declared_subsequent_operations ?stp
                @ [subsequent_operation_for (hd (steps (phases ! Suc pidx)))])"
    using step_registered_next_phase [OF good] by blast
  from look a b c
  show "\<exists>opn. registered_operations registered (ps_operation_key ?stp) = Some opn
           \<and> ((pidx \<noteq> 0 \<or> sidx \<noteq> 0) \<longrightarrow> assistance_in_progress_required (self opn))
           \<and> (Suc sidx < length (steps (phases ! pidx)) \<longrightarrow>
                subsequent_operations (self opn)
                  = Some ((case subsequent_operations (self (operation ?stp)) of
                             None \<Rightarrow> [] | Some l \<Rightarrow> l)
                          @ [\<lparr>so_type =
                                (if schedule (steps (phases ! pidx) ! Suc sidx) = None
                                 then TRIGGERED_OPERATION else SCHEDULED_OPERATION),
                              operation_key = ps_operation_key (steps (phases ! pidx) ! Suc sidx),
                              time_to_invocation_in_s =
                                schedule (steps (phases ! pidx) ! Suc sidx)\<rparr>]))
           \<and> (Suc sidx = length (steps (phases ! pidx)) \<and> Suc pidx < length phases \<longrightarrow>
                steps (phases ! Suc pidx) \<noteq> []
                \<and> subsequent_operations (self opn)
                  = Some ((case subsequent_operations (self (operation ?stp)) of
                             None \<Rightarrow> [] | Some l \<Rightarrow> l)
                          @ [\<lparr>so_type =
                                (if schedule (hd (steps (phases ! Suc pidx))) = None
                                 then TRIGGERED_OPERATION else SCHEDULED_OPERATION),
                              operation_key = ps_operation_key (hd (steps (phases ! Suc pidx))),
                              time_to_invocation_in_s =
                                schedule (hd (steps (phases ! Suc pidx)))\<rparr>]))"
    unfolding declared_subsequent_operations_def subsequent_operation_for_eq by blast
next
  assume dup: "\<not> distinct (map ps_operation_key (concat (map steps phases)))"
  show "\<exists>e. register_phases process phases = Inl e"
  proof (cases "register_phases process phases")
    case (Inl e)
    then show ?thesis by blast
  next
    case (Inr registered)
    then obtain reg where
      "register_phases_loop phases 0 phases
         \<lparr>operations_to_register = Map.empty,
          keys_of_operations_to_register_to_phase_number = Map.empty,
          keys_of_operations_to_register_to_step_number = Map.empty,
          step_number = 0\<rparr> = Inr reg"
      by (auto simp: register_phases_def split: sum.splits)
    from register_phases_loop_Inr [OF this] dup show ?thesis by blast
  qed
next
  assume wf: "(\<forall>ph\<in>set phases. steps ph \<noteq> [])
        \<and> distinct (map ps_operation_key (concat (map steps phases)))"
  then have ne: "\<forall>ph\<in>set phases. steps ph \<noteq> []"
    and di: "distinct (map ps_operation_key (concat (map steps phases)))" by blast+
  have "\<exists>reg'. register_phases_loop phases 0 phases
         \<lparr>operations_to_register = Map.empty,
          keys_of_operations_to_register_to_phase_number = Map.empty,
          keys_of_operations_to_register_to_step_number = Map.empty,
          step_number = 0\<rparr> = Inr reg'"
    by (rule register_phases_loop_total [OF ne _ _ di, where before = "[]"]) simp_all
  then show "\<exists>registered. register_phases process phases = Inr registered"
    by (auto simp: register_phases_def)
qed

theorem register_phases_links_steps_witness:
  "\<exists>registered opn0 opn1 opn2.
     register_phases (new_process ''demo'') example_phases = Inr registered
     \<and> registered_operations registered ASSISTANCE_OPERATION_KEY_INITIATION = Some opn0
     \<and> subsequent_operations (self opn0)
         = Some [\<lparr>so_type = TRIGGERED_OPERATION, operation_key = ''confirm'',
                  time_to_invocation_in_s = None\<rparr>]
     \<and> registered_operations registered ''confirm'' = Some opn1
     \<and> assistance_in_progress_required (self opn1)
     \<and> subsequent_operations (self opn1)
         = Some [\<lparr>so_type = SCHEDULED_OPERATION, operation_key = ''scheduled_step'',
                  time_to_invocation_in_s = Some 20\<rparr>]
     \<and> registered_operations registered ''scheduled_step'' = Some opn2
     \<and> assistance_in_progress_required (self opn2)
     \<and> (\<exists>e. register_phases (new_process ''demo'') (example_phases @ example_phases) = Inl e)"
proof -
  note T = register_phases_links_steps [of "new_process ''demo''" example_phases]
  have wf: "(\<forall>ph\<in>set example_phases. steps ph \<noteq> [])
            \<and> distinct (map ps_operation_key (concat (map steps example_phases)))"
    by (simp add: example_phases_def key_defs)
  with T obtain registered where
    ok: "register_phases (new_process ''demo'') example_phases = Inr registered"
    by blast
  have len: "length example_phases = 2" "length (steps (example_phases ! 0)) = 2"
    "length (steps (example_phases ! 1)) = 1"
    by (simp_all add: example_phases_def)
  from T ok have all: "\<forall>pidx<length example_phases. \<forall>sidx<length (steps (example_phases ! pidx)).
         \<exists>opn. registered_operations registered
                  (ps_operation_key (steps (example_phases ! pidx) ! sidx)) = Some opn
           \<and> ((pidx \<noteq> 0 \<or> sidx \<noteq> 0) \<longrightarrow> assistance_in_progress_required (self opn))
           \<and> (Suc sidx < length (steps (example_phases ! pidx)) \<longrightarrow>
                subsequent_operations (self opn)
                  = Some ((case subsequent_operations
                                  (self (operation (steps (example_phases ! pidx) ! sidx))) of
                             None \<Rightarrow> [] | Some l \<Rightarrow> l)
                          @ [\<lparr>so_type =
                                (if schedule (steps (example_phases ! pidx) ! Suc sidx) = None
                                 then TRIGGERED_OPERATION else SCHEDULED_OPERATION),
                              operation_key = ps_operation_key (steps (example_phases ! pidx) ! Suc sidx),
                              time_to_invocation_in_s =
                                schedule (steps (example_phases ! pidx) ! Suc sidx)\<rparr>]))
           \<and> (Suc sidx = length (steps (example_phases ! pidx)) \<and> Suc pidx < length example_phases \<longrightarrow>
                steps (example_phases ! Suc pidx) \<noteq> []
                \<and> subsequent_operations (self opn)
                  = Some ((case subsequent_operations
                                  (self (operation (steps (example_phases ! pidx) ! sidx))) of
                             None \<Rightarrow> [] | Some l \<Rightarrow> l)
                          @ [\<lparr>so_type =
                                (if schedule (hd (steps (example_phases ! Suc pidx))) = None
                                 then TRIGGERED_OPERATION else SCHEDULED_OPERATION),
                              operation_key = ps_operation_key (hd (steps (example_phases ! Suc pidx))),
                              time_to_invocation_in_s =
                                schedule (hd (steps (example_phases ! Suc pidx)))\<rparr>]))"
    by blast
  from all [rule_format, of 0 0] obtain opn0 where
    o0: "registered_operations registered ASSISTANCE_OPERATION_KEY_INITIATION = Some opn0"
      "subsequent_operations (self opn0)
         = Some [\<lparr>so_type = TRIGGERED_OPERATION, operation_key = ''confirm'',
                  time_to_invocation_in_s = None\<rparr>]"
    by (auto simp: example_phases_def process_defs default_fields_def)
  from all [rule_format, of 0 1] obtain opn1 where
    o1: "registered_operations registered ''confirm'' = Some opn1"
      "assistance_in_progress_required (self opn1)"
      "subsequent_operations (self opn1)
         = Some [\<lparr>so_type = SCHEDULED_OPERATION, operation_key = ''scheduled_step'',
                  time_to_invocation_in_s = Some 20\<rparr>]"
    by (auto simp: example_phases_def process_defs default_fields_def)
  from all [rule_format, of 1 0] obtain opn2 where
    o2: "registered_operations registered ''scheduled_step'' = Some opn2"
      "assistance_in_progress_required (self opn2)"
    by (auto simp: example_phases_def process_defs default_fields_def)
  have "\<not> distinct (map ps_operation_key (concat (map steps (example_phases @ example_phases))))"
    by (simp add: example_phases_def)
  with register_phases_links_steps [of "new_process ''demo''" "example_phases @ example_phases"]
  obtain e where dup: "register_phases (new_process ''demo'') (example_phases @ example_phases) = Inl e"
    by blast
  from ok o0 o1 o2 dup show ?thesis by (intro exI conjI) assumption+
qed
subsection \<open>Next operation keys\<close>











lemma load_assistance_objects_keys [simp]:
  "next_operation_keys (load_assistance_objects w a) = next_operation_keys a"
  "a_id (load_assistance_objects w a) = a_id a"
  by (simp_all add: load_assistance_objects_def)

lemma matches_py_of_id [simp]: "matches_a_id (py_of_id x) y = (y = x)"
  by (cases x) auto





















subsection \<open>Scheduling and the sweep\<close>






lemma bson_datetime_le: "bson_datetime x \<le> x"
  by (simp add: bson_datetime_def)







subsection \<open>Contexts that cannot be persisted\<close>

lemma add_parameter_keeps_flag:
  assumes "add_parameter c k v = Inr c'" and "class_module v \<noteq> ''__builtin__''"
  shows "context_can_be_persisted c' = context_can_be_persisted c"
  using assms by (auto simp: add_parameter_def split: if_splits)

lemma class_module_builtin_types:
  "class_module PNone = ''builtins''" "class_module (PBool b) = ''builtins''"
  "class_module (PInt i) = ''builtins''" "class_module (PNum q) = ''builtins''"
  "class_module (PStr x) = ''builtins''" "class_module (PList l) = ''builtins''"
  "class_module (PDict d) = ''builtins''"
  by simp_all


subsection \<open>Chaining order\<close>

lemma handle_chained_requests_resolved:
  "resolve_in_order h reqs supported w = Some xs \<Longrightarrow>
     handle_chained_requests h reqs supported acc w
       = (Inr (acc @ concat (map (\<lambda>x. assistance (fst x)) xs)), last (w # map snd xs))"
proof (induction reqs arbitrary: acc w xs)
  case Nil
  then show ?case by simp
next
  case (Cons rq reqs)
  from Cons.prems obtain r w1 following where
    one: "h rq supported w = (Inr (Some r), w1)"
    and more: "resolve_in_order h reqs supported w1 = Some following"
    and xs: "xs = (r, w1) # following"
    by (auto split: prod.splits sum.splits option.splits)
  from Cons.IH [OF more, of "acc @ assistance r"] one xs show ?case by simp
qed

lemma handle_chained_requests_unresolved:
  "resolve_in_order h reqs supported w = None \<Longrightarrow>
     \<exists>e w'. handle_chained_requests h reqs supported acc w = (Inl e, w')"
proof (induction reqs arbitrary: acc w)
  case Nil
  then show ?case by simp
next
  case (Cons rq reqs)
  show ?case
  proof (cases "h rq supported w")
    case (Pair res w1)
    show ?thesis
    proof (cases res)
      case (Inl e)
      with Pair show ?thesis by simp
    next
      case (Inr ro)
      show ?thesis
      proof (cases ro)
        case None
        with Pair Inr show ?thesis by simp
      next
        case (Some r)
        with Pair Inr Cons.prems have "resolve_in_order h reqs supported w1 = None"
          by (simp split: option.splits)
        from Cons.IH [OF this, of "acc @ assistance r"] Pair Inr Some show ?thesis by simp
      qed
    qed
  qed
qed

lemma resolve_in_order_nth:
  "resolve_in_order h reqs supported w = Some xs \<Longrightarrow>
     length xs = length reqs
     \<and> (\<forall>i<length reqs.
           h (reqs ! i) supported ((w # map snd xs) ! i) = (Inr (Some (fst (xs ! i))), snd (xs ! i)))"
proof (induction reqs arbitrary: w xs)
  case Nil
  then show ?case by simp
next
  case (Cons rq reqs)
  from Cons.prems obtain r w1 following where
    one: "h rq supported w = (Inr (Some r), w1)"
    and more: "resolve_in_order h reqs supported w1 = Some following"
    and xs: "xs = (r, w1) # following"
    by (auto split: prod.splits sum.splits option.splits)
  note IH = Cons.IH [OF more]
  show ?case
  proof (intro conjI allI impI)
    show "length xs = length (rq # reqs)" using IH xs by simp
    fix i assume "i < length (rq # reqs)"
    then show "h ((rq # reqs) ! i) supported ((w # map snd xs) ! i)
                 = (Inr (Some (fst (xs ! i))), snd (xs ! i))"
      using IH one xs by (cases i) auto
  qed
qed

text \<open>
  Claim C7. Let the originating operation return a result \<open>r\<close> that carries chained
  requests. \<open>__handle_assistance_request\<close> returns a result exactly when every chained
  request, resolved in order, each in the store the one before it left, yields a result.
  The returned instances are then those of all the chained requests, in the order of the
  requests, followed by the originating operation's own instances when
  \<open>prepend_assistance_from_requests\<close> is set, and the own instances followed by those
  of all the chained requests when it is not. The entries of the resolution are the
  results of the recursive calls, request by request, and when some chained request
  yields no result the call raises.
\<close>

theorem chained_instances_order:
  assumes tyk: "map_of TYPES (rq_assistance_type_key rq) = Some process"
    and enabled: "rq_assistance_type_key rq \<notin> set (DISABLED_ASSISTANCE_TYPE_KEYS w)"
    and supp: "rq_assistance_type_key rq \<in> set supported"
    and own: "check_applicability_and_execute_operation process
                (rq_assistance_operation_key rq) (rq_ctx rq) w = (Inr (Some r), w1)"
    and reqs: "assistance_requests r \<noteq> []"
  shows "(handle_assistance_request (Suc n) TYPES rq supported w = (Inr (Some res), w2)
          \<longleftrightarrow> (\<exists>xs. resolve_in_order (handle_assistance_request n TYPES)
                        (assistance_requests r) supported w1 = Some xs
                 \<and> w2 = last (w1 # map snd xs)
                 \<and> res = \<lparr>assistance =
                             (if prepend_assistance_from_requests r
                              then concat (map (\<lambda>x. assistance (fst x)) xs) @ assistance r
                              else assistance r @ concat (map (\<lambda>x. assistance (fst x)) xs)),
                           assistance_requests = [],
                           prepend_assistance_from_requests = False\<rparr>))
     \<and> (\<forall>xs. resolve_in_order (handle_assistance_request n TYPES)
                (assistance_requests r) supported w1 = Some xs \<longrightarrow>
            length xs = length (assistance_requests r)
            \<and> (\<forall>i<length (assistance_requests r).
                  handle_assistance_request n TYPES (assistance_requests r ! i) supported
                      ((w1 # map snd xs) ! i)
                    = (Inr (Some (fst (xs ! i))), snd (xs ! i))))
     \<and> (resolve_in_order (handle_assistance_request n TYPES)
            (assistance_requests r) supported w1 = None \<longrightarrow>
          (\<exists>e w'. handle_assistance_request (Suc n) TYPES rq supported w = (Inl e, w')))"
proof (intro conjI allI impI)
  let ?h = "handle_assistance_request n TYPES"
  let ?init = "if prepend_assistance_from_requests r then [] else assistance r"
  have unfold: "handle_assistance_request (Suc n) TYPES rq supported w =
      (case handle_chained_requests ?h (assistance_requests r) supported ?init w1 of
         (Inl e, w2) \<Rightarrow> (Inl e, w2)
       | (Inr acc, w2) \<Rightarrow>
           (Inr (Some \<lparr>assistance = (if prepend_assistance_from_requests r
                                      then acc @ assistance r else acc),
                       assistance_requests = [],
                       prepend_assistance_from_requests = False\<rparr>), w2))"
    using tyk enabled supp own reqs by simp
  show "(handle_assistance_request (Suc n) TYPES rq supported w = (Inr (Some res), w2))
          = (\<exists>xs. resolve_in_order ?h (assistance_requests r) supported w1 = Some xs
                 \<and> w2 = last (w1 # map snd xs)
                 \<and> res = \<lparr>assistance =
                             (if prepend_assistance_from_requests r
                              then concat (map (\<lambda>x. assistance (fst x)) xs) @ assistance r
                              else assistance r @ concat (map (\<lambda>x. assistance (fst x)) xs)),
                           assistance_requests = [],
                           prepend_assistance_from_requests = False\<rparr>)"
  proof (cases "resolve_in_order ?h (assistance_requests r) supported w1")
    case None
    from handle_chained_requests_unresolved [OF None, of ?init] obtain e w' where
      "handle_chained_requests ?h (assistance_requests r) supported ?init w1 = (Inl e, w')"
      by blast
    with None show ?thesis unfolding unfold by simp
  next
    case (Some xs)
    from handle_chained_requests_resolved [OF Some, of ?init]
    show ?thesis unfolding unfold using Some by auto
  qed
  show "length xs = length (assistance_requests r)"
    if "resolve_in_order ?h (assistance_requests r) supported w1 = Some xs" for xs
    using resolve_in_order_nth [OF that] by simp
  show "handle_assistance_request n TYPES (assistance_requests r ! i) supported
            ((w1 # map snd xs) ! i) = (Inr (Some (fst (xs ! i))), snd (xs ! i))"
    if "resolve_in_order ?h (assistance_requests r) supported w1 = Some xs"
      and "i < length (assistance_requests r)" for xs i
    using resolve_in_order_nth [OF that(1)] that(2) by simp
  show "\<exists>e w'. handle_assistance_request (Suc n) TYPES rq supported w = (Inl e, w')"
    if "resolve_in_order ?h (assistance_requests r) supported w1 = None"
  proof -
    from handle_chained_requests_unresolved [OF that, of ?init] obtain e w' where
      "handle_chained_requests ?h (assistance_requests r) supported ?init w1 = (Inl e, w')"
      by blast
    then show ?thesis unfolding unfold by simp
  qed
qed

text \<open>
  The theorem at an initiation that chains two requests, with the flag set and unset,
  and at one whose second request addresses a type that is not supported.
\<close>

theorem chained_instances_order_witness:
  "(\<exists>r w1 res w2 xs.
      check_applicability_and_execute_operation (chaining_process True)
          ASSISTANCE_OPERATION_KEY_INITIATION login_context (login_world [])
        = (Inr (Some r), w1)
      \<and> prepend_assistance_from_requests r
      \<and> length (assistance_requests r) = 2
      \<and> handle_assistance_request 3 (example_types True) chain_request
           [''chain'', ''greeting'', ''demo''] (login_world [])
        = (Inr (Some res), w2)
      \<and> resolve_in_order (handle_assistance_request 2 (example_types True))
           (assistance_requests r) [''chain'', ''greeting'', ''demo''] w1 = Some xs
      \<and> length xs = 2
      \<and> map type_key (assistance r) = [Some ''chain'']
      \<and> map type_key (assistance res) = [Some ''greeting'', Some ''demo'', Some ''chain'']
      \<and> assistance res = concat (map (\<lambda>x. assistance (fst x)) xs) @ assistance r)
   \<and> (\<exists>r w1 res w2 xs.
      check_applicability_and_execute_operation (chaining_process False)
          ASSISTANCE_OPERATION_KEY_INITIATION login_context (login_world [])
        = (Inr (Some r), w1)
      \<and> \<not> prepend_assistance_from_requests r
      \<and> length (assistance_requests r) = 2
      \<and> handle_assistance_request 3 (example_types False) chain_request
           [''chain'', ''greeting'', ''demo''] (login_world [])
        = (Inr (Some res), w2)
      \<and> resolve_in_order (handle_assistance_request 2 (example_types False))
           (assistance_requests r) [''chain'', ''greeting'', ''demo''] w1 = Some xs
      \<and> length xs = 2
      \<and> map type_key (assistance r) = [Some ''chain'']
      \<and> map type_key (assistance res) = [Some ''chain'', Some ''greeting'', Some ''demo'']
      \<and> assistance res = assistance r @ concat (map (\<lambda>x. assistance (fst x)) xs))
   \<and> (\<exists>r w1 e w'.
      check_applicability_and_execute_operation (chaining_process True)
          ASSISTANCE_OPERATION_KEY_INITIATION login_context (login_world [])
        = (Inr (Some r), w1)
      \<and> resolve_in_order (handle_assistance_request 2 (example_types True))
           (assistance_requests r) [''chain'', ''demo''] w1 = None
      \<and> handle_assistance_request 3 (example_types True) chain_request
           [''chain'', ''demo''] (login_world [])
        = (Inl e, w'))"
proof -
  let ?sup = "[''chain'', ''greeting'', ''demo'']"
  have part: "\<exists>r w1 res w2 xs.
      check_applicability_and_execute_operation (chaining_process b)
          ASSISTANCE_OPERATION_KEY_INITIATION login_context (login_world [])
        = (Inr (Some r), w1)
      \<and> prepend_assistance_from_requests r = b
      \<and> length (assistance_requests r) = 2
      \<and> handle_assistance_request 3 (example_types b) chain_request ?sup (login_world [])
        = (Inr (Some res), w2)
      \<and> resolve_in_order (handle_assistance_request 2 (example_types b))
           (assistance_requests r) ?sup w1 = Some xs
      \<and> length xs = 2
      \<and> map type_key (assistance r) = [Some ''chain'']
      \<and> map type_key (assistance res)
          = (if b then [Some ''greeting'', Some ''demo'', Some ''chain'']
             else [Some ''chain'', Some ''greeting'', Some ''demo''])
      \<and> assistance res = (if b then concat (map (\<lambda>x. assistance (fst x)) xs) @ assistance r
                          else assistance r @ concat (map (\<lambda>x. assistance (fst x)) xs))" for b
  proof -
    have ty: "map_of (example_types b) (rq_assistance_type_key chain_request)
                = Some (chaining_process b)"
      by (simp add: example_types_def chain_request_def)
    have en: "rq_assistance_type_key chain_request
                \<notin> set (DISABLED_ASSISTANCE_TYPE_KEYS (login_world []))"
      by (simp add: chain_request_def world_defs)
    have su: "rq_assistance_type_key chain_request \<in> set ?sup"
      by (simp add: chain_request_def)
    have "\<exists>r w1. check_applicability_and_execute_operation (chaining_process b)
             ASSISTANCE_OPERATION_KEY_INITIATION login_context (login_world [])
           = (Inr (Some r), w1)
           \<and> prepend_assistance_from_requests r = b \<and> length (assistance_requests r) = 2
           \<and> map type_key (assistance r) = [Some ''chain'']"
      by (simp add: chain_defs)
    then obtain r w1 where
      own: "check_applicability_and_execute_operation (chaining_process b)
             ASSISTANCE_OPERATION_KEY_INITIATION login_context (login_world [])
           = (Inr (Some r), w1)"
      and pre: "prepend_assistance_from_requests r = b"
      and len: "length (assistance_requests r) = 2"
      and tk: "map type_key (assistance r) = [Some ''chain'']"
      by (elim exE conjE) (rule that)
    have own': "check_applicability_and_execute_operation (chaining_process b)
             (rq_assistance_operation_key chain_request) (rq_ctx chain_request) (login_world [])
           = (Inr (Some r), w1)"
      using own by (simp add: chain_request_def)
    have rqs: "assistance_requests r \<noteq> []" using len by auto
    have "\<exists>res w2. handle_assistance_request (Suc 2) (example_types b) chain_request
             ?sup (login_world []) = (Inr (Some res), w2)
           \<and> map type_key (assistance res)
               = (if b then [Some ''greeting'', Some ''demo'', Some ''chain'']
                  else [Some ''chain'', Some ''greeting'', Some ''demo''])"
      by (cases b) (simp_all add: chain_defs eval_nat_numeral)
    then obtain res w2 where
      ret: "handle_assistance_request (Suc 2) (example_types b) chain_request
             ?sup (login_world []) = (Inr (Some res), w2)"
      and tks: "map type_key (assistance res)
               = (if b then [Some ''greeting'', Some ''demo'', Some ''chain'']
                  else [Some ''chain'', Some ''greeting'', Some ''demo''])"
      by (elim exE conjE) (rule that)
    note T = chained_instances_order [OF ty en su own' rqs, of 2 res w2]
    from T [THEN conjunct1] ret obtain xs where
      xs: "resolve_in_order (handle_assistance_request 2 (example_types b))
             (assistance_requests r) ?sup w1 = Some xs"
      and eq: "res = \<lparr>assistance =
                        (if prepend_assistance_from_requests r
                         then concat (map (\<lambda>x. assistance (fst x)) xs) @ assistance r
                         else assistance r @ concat (map (\<lambda>x. assistance (fst x)) xs)),
                      assistance_requests = [],
                      prepend_assistance_from_requests = False\<rparr>"
      by blast
    from T [THEN conjunct2, THEN conjunct1, rule_format, OF xs] len
    have lx: "length xs = 2" by simp
    from eq pre
    have eq': "assistance res = (if b then concat (map (\<lambda>x. assistance (fst x)) xs) @ assistance r
                                else assistance r @ concat (map (\<lambda>x. assistance (fst x)) xs))"
      by simp
    have three: "(3::nat) = Suc 2" by simp
    from own pre len ret [folded three] xs lx tk tks eq' show ?thesis
      by (intro exI conjI) assumption+
  qed
  have none: "\<exists>r w1 e w'.
      check_applicability_and_execute_operation (chaining_process True)
          ASSISTANCE_OPERATION_KEY_INITIATION login_context (login_world [])
        = (Inr (Some r), w1)
      \<and> resolve_in_order (handle_assistance_request 2 (example_types True))
           (assistance_requests r) [''chain'', ''demo''] w1 = None
      \<and> handle_assistance_request 3 (example_types True) chain_request
           [''chain'', ''demo''] (login_world [])
        = (Inl e, w')"
  proof -
    have ty: "map_of (example_types True) (rq_assistance_type_key chain_request)
                = Some (chaining_process True)"
      by (simp add: example_types_def chain_request_def)
    have en: "rq_assistance_type_key chain_request
                \<notin> set (DISABLED_ASSISTANCE_TYPE_KEYS (login_world []))"
      by (simp add: chain_request_def world_defs)
    have su: "rq_assistance_type_key chain_request \<in> set [''chain'', ''demo'']"
      by (simp add: chain_request_def)
    have "\<exists>r w1. check_applicability_and_execute_operation (chaining_process True)
             ASSISTANCE_OPERATION_KEY_INITIATION login_context (login_world [])
           = (Inr (Some r), w1)
           \<and> assistance_requests r \<noteq> []
           \<and> resolve_in_order (handle_assistance_request 2 (example_types True))
                (assistance_requests r) [''chain'', ''demo''] w1 = None"
      by (simp add: chain_defs eval_nat_numeral)
    then obtain r w1 where
      own: "check_applicability_and_execute_operation (chaining_process True)
             ASSISTANCE_OPERATION_KEY_INITIATION login_context (login_world [])
           = (Inr (Some r), w1)"
      and rqs: "assistance_requests r \<noteq> []"
      and un: "resolve_in_order (handle_assistance_request 2 (example_types True))
                (assistance_requests r) [''chain'', ''demo''] w1 = None"
      by (elim exE conjE) (rule that)
    have own': "check_applicability_and_execute_operation (chaining_process True)
             (rq_assistance_operation_key chain_request) (rq_ctx chain_request) (login_world [])
           = (Inr (Some r), w1)"
      using own by (simp add: chain_request_def)
    from chained_instances_order [OF ty en su own' rqs, of 2, THEN conjunct2, THEN conjunct2,
        rule_format, OF un]
    obtain e w' where
      "handle_assistance_request (Suc 2) (example_types True) chain_request
         [''chain'', ''demo''] (login_world []) = (Inl e, w')"
      by (elim exE) (rule that)
    then have "handle_assistance_request 3 (example_types True) chain_request
         [''chain'', ''demo''] (login_world []) = (Inl e, w')"
      by (simp add: eval_nat_numeral)
    with own un show ?thesis by (intro exI conjI) assumption+
  qed
  from part [of True] part [of False] none show ?thesis by simp
qed

subsection \<open>The greeting process on the event path\<close>


lemma debug_scheduled_assistance_time_factor_updates [simp]:
  "debug_scheduled_assistance_time_factor (w\<lparr>assistance_collection := a\<rparr>)
     = debug_scheduled_assistance_time_factor w"
  "debug_scheduled_assistance_time_factor (w\<lparr>assistance_objects_collection := b\<rparr>)
     = debug_scheduled_assistance_time_factor w"
  "debug_scheduled_assistance_time_factor (w\<lparr>next_object_id := i\<rparr>)
     = debug_scheduled_assistance_time_factor w"
  "debug_scheduled_assistance_time_factor (w\<lparr>uuid_count := j\<rparr>)
     = debug_scheduled_assistance_time_factor w"
  by (simp_all add: debug_scheduled_assistance_time_factor_def debug_def read_setting_by_key_def)


lemma verbs_differ [simp]: "LOGGED_IN \<noteq> ASSISTED" "LOGGED_IN \<noteq> LOGGED_OUT"
  by (simp_all add: LOGGED_IN_def ASSISTED_def LOGGED_OUT_def)




lemma next_operation_keys_loop_Nil [simp]:
  "next_operation_keys_loop n TYPES tk [] c supported acc w = (Inr acc, w)"
  by simp














end
